theory Spec2Isabelle
  imports Main "HOL-Library.Char_ord" "HOL-Library.List_Lexorder"
begin

section \<open>Python values and string helpers\<close>

text \<open>
  Exceptions of the handlers are values: every \<open>raise\<close> that the two relation modules
  can reach is a constructor of \<open>error\<close>. A handler ends in an \<open>outcome\<close>; the state
  it returns holds the side effects done before it returned or raised.
\<close>

datatype error =
    AttributeError
  | IndexError
  | KeyError
  | TypeError
  | FileNotFoundError
  | Psycopg2Error
  | PostgreSQLCreateUserError
  | PostgreSQLCreateDatabaseError
  | PostgreSQLDeleteUserError
  | PostgreSQLGetPostgreSQLVersionError

datatype outcome = Returned | Raised error

text \<open>Values that reach \<open>str(item)\<close> in \<open>update_databags\<close>.\<close>

datatype pyval = PyNone | PyStr string

fun str_nat :: "nat \<Rightarrow> string" where
  "str_nat n =
     (if n < 10 then [''0123456789'' ! n]
      else str_nat (n div 10) @ [''0123456789'' ! (n mod 10)])"

declare str_nat.simps [simp del]

definition str_int :: "int \<Rightarrow> string" where
  "str_int i = (if i < 0 then CHR ''-'' # str_nat (nat (- i)) else str_nat (nat i))"

fun py_str :: "pyval \<Rightarrow> string" where
  "py_str PyNone = ''None''"
| "py_str (PyStr x) = x"

definition opt_val :: "string option \<Rightarrow> pyval" where
  "opt_val x = (case x of None \<Rightarrow> PyNone | Some v \<Rightarrow> PyStr v)"

text \<open>Truthiness of an optional string: \<open>None\<close> and the empty string are falsy.\<close>

definition truthy :: "string option \<Rightarrow> bool" where
  "truthy x = (case x of None \<Rightarrow> False | Some v \<Rightarrow> v \<noteq> [])"

text \<open>\<open>s.replace("-", "_")\<close>.\<close>

definition replace_dash :: "string \<Rightarrow> string" where
  "replace_dash s = map (\<lambda>c. if c = CHR ''-'' then CHR ''_'' else c) s"

text \<open>\<open>s.split(sep)\<close> for a one-character separator: never the empty list.\<close>

fun py_split :: "char \<Rightarrow> string \<Rightarrow> string list" where
  "py_split sep [] = [[]]"
| "py_split sep (c # cs) =
     (if c = sep then [] # py_split sep cs
      else (case py_split sep cs of
              [] \<Rightarrow> [[c]]
            | w # ws \<Rightarrow> (c # w) # ws))"

text \<open>\<open>ep.split(":")[0]\<close>: index 0 of a split always exists.\<close>

definition split0 :: "string \<Rightarrow> string" where
  "split0 ep = (case py_split CHR '':'' ep of [] \<Rightarrow> [] | h # _ \<Rightarrow> h)"

text \<open>\<open>ep.split(":")[1]\<close>: raises IndexError when the string has no colon.\<close>

definition split1 :: "string \<Rightarrow> error + string" where
  "split1 ep = (case py_split CHR '':'' ep of _ # p # _ \<Rightarrow> Inr p | _ \<Rightarrow> Inl IndexError)"

text \<open>\<open>sep.join(xs)\<close>.\<close>

fun py_join :: "string \<Rightarrow> string list \<Rightarrow> string" where
  "py_join sep [] = []"
| "py_join sep [x] = x"
| "py_join sep (x # y # ys) = x @ sep @ py_join sep (y # ys)"

section \<open>Data model\<close>

type_synonym databag = "string \<rightharpoonup> string"

text \<open>Keys of \<open>relation.data\<close>: a unit (its name and its application's name) or an application.\<close>

datatype entity = Unit string string | Application string

text \<open>
  A relation as this unit sees it: its own unit and application databags, and the
  databags of the remote side in the order \<open>relation.data\<close> iterates them.
\<close>

record relation =
  unit_data :: databag
  app_data :: databag
  remote_data :: "(entity \<times> databag) list"

record route =
  r_host :: string
  r_dbname :: string
  r_port :: string
  r_auth_user :: "string option"

text \<open>
  Modelled from the spec: the Config Document (class PgbConfig of the pgb library, which
  is not among the sources). It has a database route table keyed by alias, a user table
  keyed by username holding the admin bit, and the pooler-wide settings. \<open>add_user\<close>
  inserts a user entry and \<open>remove_user\<close> removes it.
\<close>

record pgb_config =
  databases :: "string \<rightharpoonup> route"
  users :: "string \<rightharpoonup> bool"
  pgbouncer :: "string \<rightharpoonup> string"

definition add_user :: "string \<Rightarrow> bool \<Rightarrow> pgb_config \<Rightarrow> pgb_config" where
  "add_user user admin cfg = cfg\<lparr>users := (users cfg)(user \<mapsto> admin)\<rparr>"

definition remove_user :: "string \<Rightarrow> pgb_config \<Rightarrow> pgb_config" where
  "remove_user user cfg = cfg\<lparr>users := (users cfg)(user := None)\<rparr>"

datatype unit_status =
    ActiveStatus string
  | BlockedStatus string
  | MaintenanceStatus string
  | WaitingStatus string

fun is_active :: "unit_status \<Rightarrow> bool" where
  "is_active (ActiveStatus _) = True"
| "is_active _ = False"

datatype sql_script = Install string | Uninstall string

text \<open>
  What a handler does to the outside: the scheduler signals \<open>defer\<close> and \<open>fail\<close> on the
  event, the calls of the PostgreSQL driver, the SQL scripts run in a database, and the
  file operations of the charm.
\<close>

datatype call =
    Defer
  | Fail
  | CreateUser string string bool
  | CreateDatabase string string
  | DeleteUser string
  | Execute string sql_script
  | GetPostgresqlVersion
  | RenderAuthFile string
  | DeleteFile string
  | RenderPgbConfig bool
  | ReloadPgbouncer

record postgresql =
  pg_host :: string
  pg_user :: string
  pg_password :: string
  pg_database :: string

text \<open>
  What a handler reads and never changes: the identity of the process, its leadership,
  the charm's configuration, the constants of the \<open>constants\<close> module (\<open>PG\<close>, \<open>PGB\<close>,
  \<open>PGB_DIR\<close>, \<open>AUTH_FILE_PATH\<close>, taken as parameters), and the behaviour of the
  collaborators: the result of \<open>check_status\<close>, the passwords \<open>generate_password\<close>
  returns in turn, the password hash, and which external calls raise.
\<close>

record env =
  app_name :: string
  unit_name :: string
  model_name :: string
  is_leader :: bool
  unit_ip :: string
  listen_port :: int
  const_PG :: string
  const_PGB :: string
  const_PGB_DIR :: string
  const_AUTH_FILE_PATH :: string
  check_status :: unit_status
  postgresql_version :: string
  random_password :: "nat \<Rightarrow> string"
  get_hashed_password :: "string \<Rightarrow> string \<Rightarrow> string"
  fails :: "call \<Rightarrow> bool"

text \<open>
  What a handler can change. \<open>persisted_config\<close> is the persisted Config Document (\<open>None\<close>
  while the file does not exist). The client relations are a store from relation id to
  relation, with the ids of the \<open>db\<close> and \<open>db-admin\<close> relations in the order
  \<open>model.relations\<close> lists them. \<open>generated\<close> counts the passwords generated so far and
  \<open>calls\<close> is the log of external calls, oldest first.
\<close>

record state =
  status :: unit_status
  peers_app_databag :: databag
  persisted_config :: "pgb_config option"
  files :: "string \<rightharpoonup> string"
  backend_relation :: "relation option"
  db_relations :: "int list"
  db_admin_relations :: "int list"
  relation_data :: "int \<Rightarrow> relation"
  generated :: nat
  calls :: "call list"

text \<open>\<open>relation.data.items()\<close>: own unit, own application, then the remote entries.\<close>

definition data_items :: "env \<Rightarrow> relation \<Rightarrow> (entity \<times> databag) list" where
  "data_items env r =
     (Unit (unit_name env) (app_name env), unit_data r) #
     (Application (app_name env), app_data r) # remote_data r"

text \<open>\<open>relation.data[key]\<close>: KeyError for a key that is not in the relation.\<close>

definition data_lookup :: "env \<Rightarrow> relation \<Rightarrow> entity \<Rightarrow> error + databag" where
  "data_lookup env r key =
     (case map_of (data_items env r) key of None \<Rightarrow> Inl KeyError | Some bag \<Rightarrow> Inr bag)"

section \<open>Collaborators of the charm\<close>

definition log_call :: "call \<Rightarrow> state \<Rightarrow> state" where
  "log_call c s = s\<lparr>calls := calls s @ [c]\<rparr>"

text \<open>An external call that may raise: it is logged, then it succeeds or raises \<open>e\<close>.\<close>

definition external :: "env \<Rightarrow> call \<Rightarrow> error \<Rightarrow> state \<Rightarrow> outcome \<times> state" where
  "external env c e s = (if fails env c then Raised e else Returned, log_call c s)"

definition generate_password :: "env \<Rightarrow> state \<Rightarrow> string \<times> state" where
  "generate_password env s = (random_password env (generated s), s\<lparr>generated := Suc (generated s)\<rparr>)"

text \<open>
  Modelled from the spec: the charm's \<open>read_pgb_config\<close>, \<open>render_pgb_config\<close>,
  \<open>render_auth_file\<close> and \<open>delete_file\<close> (charm.py is not among the sources). The Config
  Document is loaded from its persisted form and persisted whole after a mutation;
  reading it before it exists raises FileNotFoundError. The credential file is written
  at \<open>AUTH_FILE_PATH\<close>.
\<close>

definition read_pgb_config :: "state \<Rightarrow> error + pgb_config" where
  "read_pgb_config s = (case persisted_config s of None \<Rightarrow> Inl FileNotFoundError | Some cfg \<Rightarrow> Inr cfg)"

definition render_pgb_config :: "pgb_config \<Rightarrow> bool \<Rightarrow> state \<Rightarrow> state" where
  "render_pgb_config cfg reload_pgbouncer s =
     log_call (RenderPgbConfig reload_pgbouncer) (s\<lparr>persisted_config := Some cfg\<rparr>)"

definition render_auth_file :: "env \<Rightarrow> string \<Rightarrow> state \<Rightarrow> state" where
  "render_auth_file env auth_file s =
     log_call (RenderAuthFile auth_file)
       (s\<lparr>files := (files s)(const_AUTH_FILE_PATH env \<mapsto> auth_file)\<rparr>)"

definition delete_file :: "string \<Rightarrow> state \<Rightarrow> state" where
  "delete_file path s = log_call (DeleteFile path) (s\<lparr>files := (files s)(path := None)\<rparr>)"

section \<open>backend\_database.py: properties of BackendDatabaseRequires\<close>

text \<open>
  \<open>postgres_databag\<close>: the databag of the first application in the backend relation's
  data that is not this application; \<open>None\<close> when there is none or no relation.
\<close>

fun first_other_app :: "string \<Rightarrow> (entity \<times> databag) list \<Rightarrow> (string \<times> databag) option" where
  "first_other_app me [] = None"
| "first_other_app me ((Application a, bag) # rest) =
     (if a \<noteq> me then Some (a, bag) else first_other_app me rest)"
| "first_other_app me ((Unit _ _, bag) # rest) = first_other_app me rest"

definition postgres_databag :: "env \<Rightarrow> state \<Rightarrow> databag option" where
  "postgres_databag env s =
     (case backend_relation s of
        None \<Rightarrow> None
      | Some r \<Rightarrow> map_option snd (first_other_app (app_name env) (data_items env r)))"

text \<open>
  \<open>postgres\<close>: \<open>None\<close> without a relation or while endpoint, username or password is
  missing. With a relation but no remote application databag, \<open>databag.get\<close> is called
  on \<open>None\<close>.
\<close>

definition postgres :: "env \<Rightarrow> state \<Rightarrow> error + postgresql option" where
  "postgres env s =
     (case backend_relation s of
        None \<Rightarrow> Inr None
      | Some _ \<Rightarrow>
          (case postgres_databag env s of
             None \<Rightarrow> Inl AttributeError
           | Some databag \<Rightarrow>
               (case (databag ''endpoints'', databag ''username'', databag ''password'') of
                  (Some endpoint, Some user, Some password) \<Rightarrow>
                    Inr (Some \<lparr>pg_host = split0 endpoint, pg_user = user,
                               pg_password = password, pg_database = const_PGB env\<rparr>)
                | _ \<Rightarrow> Inr None)))"

text \<open>\<open>auth_user\<close>: calls \<open>get\<close> on the result of \<open>postgres_databag\<close> with no check for \<open>None\<close>.\<close>

definition auth_user :: "env \<Rightarrow> state \<Rightarrow> error + string option" where
  "auth_user env s =
     (case postgres_databag env s of
        None \<Rightarrow> Inl AttributeError
      | Some databag \<Rightarrow>
          (case databag ''username'' of
             None \<Rightarrow> Inr None
           | Some username \<Rightarrow> Inr (Some (replace_dash (''pgbouncer_auth_'' @ username)))))"

text \<open>
  \<open>self.charm.backend.get_read_only_endpoints()\<close>, called by
  \<open>update_postgres_endpoints\<close> in db.py: BackendDatabaseRequires defines the properties
  \<open>relation\<close>, \<open>postgres\<close>, \<open>auth_user\<close> and \<open>postgres_databag\<close> and the two
  auth-function methods, and no attribute of this name, so the lookup raises
  AttributeError before anything is returned.
\<close>

definition get_read_only_endpoints :: "env \<Rightarrow> state \<Rightarrow> error + string list" where
  "get_read_only_endpoints env s = Inl AttributeError"

text \<open>A \<open>for\<close> loop whose body may raise: the first exception ends the loop.\<close>

fun for_each :: "('a \<Rightarrow> state \<Rightarrow> outcome \<times> state) \<Rightarrow> 'a list \<Rightarrow> state \<Rightarrow> outcome \<times> state" where
  "for_each body [] s = (Returned, s)"
| "for_each body (x # xs) s =
     (case body x s of
        (Raised e, s') \<Rightarrow> (Raised e, s')
      | (Returned, s') \<Rightarrow> for_each body xs s')"

text \<open>
  A method call on \<open>self.postgres\<close>: the property is evaluated first (it may raise, and
  a method call on \<open>None\<close> raises AttributeError), then the external call is made.
\<close>

definition postgres_call :: "env \<Rightarrow> call \<Rightarrow> error \<Rightarrow> state \<Rightarrow> outcome \<times> state" where
  "postgres_call env c e s =
     (case postgres env s of
        Inl e' \<Rightarrow> (Raised e', s)
      | Inr None \<Rightarrow> (Raised AttributeError, s)
      | Inr (Some _) \<Rightarrow> external env c e s)"

text \<open>
  One round of the loop of \<open>initialise_auth_function\<close> and \<open>remove_auth_function\<close>:
  connect to the database through \<open>self.postgres\<close>, substitute \<open>self.auth_user\<close> into the
  script (\<open>str.replace\<close> with \<open>None\<close> raises TypeError) and execute it.
\<close>

definition run_script :: "env \<Rightarrow> (string \<Rightarrow> sql_script) \<Rightarrow> string \<Rightarrow> state \<Rightarrow> outcome \<times> state" where
  "run_script env script dbname s =
     (case postgres env s of
        Inl e \<Rightarrow> (Raised e, s)
      | Inr None \<Rightarrow> (Raised AttributeError, s)
      | Inr (Some _) \<Rightarrow>
          (case auth_user env s of
             Inl e \<Rightarrow> (Raised e, s)
           | Inr None \<Rightarrow> (Raised TypeError, s)
           | Inr (Some au) \<Rightarrow> external env (Execute dbname (script au)) Psycopg2Error s))"

definition initialise_auth_function :: "env \<Rightarrow> string list \<Rightarrow> state \<Rightarrow> outcome \<times> state" where
  "initialise_auth_function env dbs s = for_each (run_script env Install) dbs s"

definition remove_auth_function :: "env \<Rightarrow> string list \<Rightarrow> state \<Rightarrow> outcome \<times> state" where
  "remove_auth_function env dbs s = for_each (run_script env Uninstall) dbs s"

section \<open>db.py: helpers of DbProvides\<close>

definition relation_name :: "bool \<Rightarrow> string" where
  "relation_name admin = (if admin then ''db-admin'' else ''db'')"

text \<open>
  \<open>update_databags\<close>: every value is coerced with \<open>str\<close>, then written to the unit
  databag and, on the leader, to the application databag (\<open>get_databags\<close>).
\<close>

definition bag_update :: "databag \<Rightarrow> (string \<times> string) list \<Rightarrow> databag" where
  "bag_update bag updates = fold (\<lambda>(key, item) m. m(key \<mapsto> item)) updates bag"

definition update_databags :: "env \<Rightarrow> int \<Rightarrow> (string \<times> pyval) list \<Rightarrow> state \<Rightarrow> state" where
  "update_databags env rid updates s =
     (let updates' = map (\<lambda>(key, item). (key, py_str item)) updates;
          r = relation_data s rid;
          r1 = r\<lparr>unit_data := bag_update (unit_data r) updates'\<rparr>;
          r2 = (if is_leader env then r1\<lparr>app_data := bag_update (app_data r1) updates'\<rparr> else r1)
      in s\<lparr>relation_data := (relation_data s)(rid := r2)\<rparr>)"

definition generate_username :: "env \<Rightarrow> int \<Rightarrow> string" where
  "generate_username env relation_id =
     replace_dash (app_name env @ ''_user_'' @ str_int relation_id @ ''_'' @ model_name env)"

definition get_state :: "env \<Rightarrow> string" where
  "get_state env = (if is_leader env then ''master'' else ''standby'')"

text \<open>\<open>str.strip()\<close> on ASCII text.\<close>

definition is_space :: "char \<Rightarrow> bool" where
  "is_space c = (c \<in> {CHR '' '', CHR 0x09, CHR 0x0A, CHR 0x0B, CHR 0x0C, CHR 0x0D,
                      CHR 0x1C, CHR 0x1D, CHR 0x1E, CHR 0x1F})"

definition py_strip :: "string \<Rightarrow> string" where
  "py_strip x = rev (dropWhile is_space (rev (dropWhile is_space x)))"

definition comma_split :: "string \<Rightarrow> string list" where
  "comma_split x =
     (if x = [] then []
      else filter (\<lambda>w. w \<noteq> []) (map py_strip (py_split CHR '','' x)))"

definition startswith :: "string \<Rightarrow> string \<Rightarrow> bool" where
  "startswith x p = (take (length p) x = p)"

definition get_allowed_subnets :: "env \<Rightarrow> relation \<Rightarrow> string" where
  "get_allowed_subnets env r =
     py_join '',''
       (sort (remdups (concat (map
          (\<lambda>(key, reldata).
             (case key of
                Unit name _ \<Rightarrow>
                  if \<not> startswith name (app_name env)
                  then comma_split (case reldata ''egress-subnets'' of None \<Rightarrow> [] | Some v \<Rightarrow> v)
                  else []
              | Application _ \<Rightarrow> []))
          (data_items env r)))))"

definition get_allowed_units :: "env \<Rightarrow> relation \<Rightarrow> string" where
  "get_allowed_units env r =
     py_join '',''
       (sort (concat (map
          (\<lambda>(key, reldata).
             (case key of
                Unit name app \<Rightarrow> if app \<noteq> app_name env then [name] else []
              | Application _ \<Rightarrow> []))
          (data_items env r))))"

definition get_external_app :: "env \<Rightarrow> relation \<Rightarrow> string option" where
  "get_external_app env r = map_option fst (first_other_app (app_name env) (data_items env r))"

text \<open>
  Modelled from the spec: \<open>parse_dict_to_kv_string\<close> of the pgb library (not among the
  sources): \<open>key=value\<close> tokens joined by a space, in the order of the fields.
\<close>

definition parse_dict_to_kv_string :: "(string \<times> string) list \<Rightarrow> string" where
  "parse_dict_to_kv_string d = py_join '' '' (map (\<lambda>(k, v). k @ ''='' @ v) d)"

definition update_connection_info :: "env \<Rightarrow> int \<Rightarrow> int option \<Rightarrow> state \<Rightarrow> outcome \<times> state" where
  "update_connection_info env rid port s =
     (let port' = (case port of
                     None \<Rightarrow> listen_port env
                   | Some p \<Rightarrow> if p = 0 then listen_port env else p);
          r = relation_data s rid;
          databag = unit_data r
      in case (databag ''database'', databag ''user'', databag ''password'') of
           (Some database, Some user, Some password) \<Rightarrow>
             (case get_external_app env r of
                None \<Rightarrow> (Raised AttributeError, s)
              | Some external_app \<Rightarrow>
                  (let master_dbconnstr =
                         [(''host'', ''localhost''),
                          (''dbname'', database),
                          (''port'', str_int port'),
                          (''user'', user),
                          (''password'', password),
                          (''fallback_application_name'', external_app)];
                       connection_updates =
                         [(''master'', PyStr (parse_dict_to_kv_string master_dbconnstr)),
                          (''port'', PyStr (str_int port')),
                          (''host'', PyStr ''localhost'')]
                   in (Returned, update_databags env rid connection_updates s)))
         | _ \<Rightarrow> (Returned, s))"

text \<open>
  \<open>update_postgres_endpoints\<close>. After the primary route is put into the in-memory
  \<open>cfg["databases"]\<close>, the source asks the backend for its read-only endpoints; that
  call raises, so the lines after it are never reached. They are kept here as the source
  has them, over the list the call would have returned: the standby alias
  (\<open>standby_routes\<close>: set when the list is not empty, popped otherwise; its port is read
  from the first endpoint and raises IndexError when that has no colon), then the root
  database for an admin relation (\<open>set_routes\<close>), then the render.
\<close>

definition standby :: "string \<Rightarrow> string" where
  "standby database = database @ ''_standby''"

definition standby_routes :: "string \<Rightarrow> string option \<Rightarrow> string list \<Rightarrow> (string \<rightharpoonup> route) \<Rightarrow> error + (string \<rightharpoonup> route)" where
  "standby_routes database au read_only_endpoints dbs =
     (case read_only_endpoints of
        [] \<Rightarrow> Inr (dbs(standby database := None))
      | ep # _ \<Rightarrow>
          (case split1 ep of
             Inl e \<Rightarrow> Inl e
           | Inr standby_port \<Rightarrow>
               Inr (dbs(standby database \<mapsto>
                      \<lparr>r_host = py_join '','' (map split0 read_only_endpoints),
                       r_dbname = database,
                       r_port = standby_port,
                       r_auth_user = au\<rparr>))))"

definition set_routes :: "env \<Rightarrow> bool \<Rightarrow> string \<Rightarrow> string \<Rightarrow> string \<Rightarrow> string option \<Rightarrow> string list \<Rightarrow> (string \<rightharpoonup> route) \<Rightarrow> error + (string \<rightharpoonup> route)" where
  "set_routes env admin database postgres_endpoint primary_port au read_only_endpoints dbs =
     (case standby_routes database au read_only_endpoints dbs of
        Inl e \<Rightarrow> Inl e
      | Inr dbs2 \<Rightarrow>
          Inr (if admin
               then dbs2(const_PG env \<mapsto>
                      \<lparr>r_host = split0 postgres_endpoint, r_dbname = const_PG env,
                       r_port = primary_port, r_auth_user = au\<rparr>)
               else dbs2))"

definition update_postgres_endpoints :: "env \<Rightarrow> bool \<Rightarrow> int \<Rightarrow> bool \<Rightarrow> state \<Rightarrow> outcome \<times> state" where
  "update_postgres_endpoints env admin rid reload_pgbouncer s =
     (case unit_data (relation_data s rid) ''database'' of
        None \<Rightarrow> (Returned, s)
      | Some database \<Rightarrow>
          (case postgres_databag env s of
             None \<Rightarrow> (Raised AttributeError, s)
           | Some backend_databag \<Rightarrow>
               (case read_pgb_config s of
                  Inl e \<Rightarrow> (Raised e, s)
                | Inr cfg \<Rightarrow>
                    (case backend_databag ''endpoints'' of
                       None \<Rightarrow> (Raised AttributeError, s)
                     | Some postgres_endpoint \<Rightarrow>
                         (case split1 postgres_endpoint of
                            Inl e \<Rightarrow> (Raised e, s)
                          | Inr primary_port \<Rightarrow>
                              (case auth_user env s of
                                 Inl e \<Rightarrow> (Raised e, s)
                               | Inr au \<Rightarrow>
                                   (let dbs1 = (databases cfg)(database \<mapsto>
                                          \<lparr>r_host = split0 postgres_endpoint, r_dbname = database,
                                           r_port = primary_port, r_auth_user = au\<rparr>)
                                    in case get_read_only_endpoints env s of
                                         Inl e \<Rightarrow> (Raised e, s)
                                       | Inr read_only_endpoints \<Rightarrow>
                                           (case set_routes env admin database postgres_endpoint
                                                   primary_port au read_only_endpoints dbs1 of
                                              Inl e \<Rightarrow> (Raised e, s)
                                            | Inr dbs \<Rightarrow>
                                                (Returned,
                                                 render_pgb_config (cfg\<lparr>databases := dbs\<rparr>)
                                                   reload_pgbouncer s)))))))))"

section \<open>Events and the charm's fan-out methods\<close>

text \<open>
  A relation event: the id of its relation and the \<open>app\<close> and \<open>unit\<close> attributes of the
  event, as keys of \<open>relation.data\<close>.
\<close>

record relation_event =
  ev_relation :: int
  ev_app :: entity
  ev_unit :: entity

text \<open>
  Modelled from the spec: \<open>update_client_connection_info\<close> and
  \<open>update_postgres_endpoints\<close> of the charm (charm.py is not among the sources): the
  charm refreshes the published connection info, respectively republishes the endpoint
  topology, for every client relation of both flavors, then reloads the pooler if asked.
\<close>

definition charm_update_client_connection_info :: "env \<Rightarrow> state \<Rightarrow> outcome \<times> state" where
  "charm_update_client_connection_info env s =
     for_each (\<lambda>rid. update_connection_info env rid None)
       (db_relations s @ db_admin_relations s) s"

definition charm_update_postgres_endpoints :: "env \<Rightarrow> bool \<Rightarrow> state \<Rightarrow> outcome \<times> state" where
  "charm_update_postgres_endpoints env reload_pgbouncer s =
     (case for_each (\<lambda>rid. update_postgres_endpoints env False rid False) (db_relations s) s of
        (Raised e, s1) \<Rightarrow> (Raised e, s1)
      | (Returned, s1) \<Rightarrow>
          (case for_each (\<lambda>rid. update_postgres_endpoints env True rid False)
                  (db_admin_relations s1) s1 of
             (Raised e, s2) \<Rightarrow> (Raised e, s2)
           | (Returned, s2) \<Rightarrow>
               (Returned, if reload_pgbouncer then log_call ReloadPgbouncer s2 else s2)))"

text \<open>
  Modelled from the spec: \<open>add_user\<close> and \<open>remove_user\<close> of the peer relation (not among
  the sources): the leader hands the generated password to its peers under the username
  as key of the peer application databag, where a non-leader's join handler reads it.
\<close>

definition peers_add_user :: "string \<Rightarrow> string \<Rightarrow> state \<Rightarrow> state" where
  "peers_add_user user password s =
     s\<lparr>peers_app_databag := (peers_app_databag s)(user \<mapsto> password)\<rparr>"

definition peers_remove_user :: "string \<Rightarrow> state \<Rightarrow> state" where
  "peers_remove_user user s = s\<lparr>peers_app_databag := (peers_app_databag s)(user := None)\<rparr>"

section \<open>db.py: the handlers of DbProvides\<close>

text \<open>
  The walrus condition of the join handler: the application databag's database name if
  truthy, else the unit databag's.
\<close>

definition requested_database :: "databag \<Rightarrow> databag \<Rightarrow> string option" where
  "requested_database remote_app_databag remote_unit_databag =
     (if truthy (remote_app_databag ''database'') then remote_app_databag ''database''
      else remote_unit_databag ''database'')"

text \<open>
  The leader's part of the join handler, after the databags are written. \<open>password\<close> is
  the value bound above; on this path it is the generated one, so the branch of
  \<open>db_on_relation_joined\<close> for a leader without a password is never taken.
\<close>

definition join_provision :: "env \<Rightarrow> bool \<Rightarrow> string \<Rightarrow> string \<Rightarrow> string \<Rightarrow> state \<Rightarrow> outcome \<times> state" where
  "join_provision env admin user password database s0 =
     (let s = s0\<lparr>status := MaintenanceStatus
                  (''initialising database and user for '' @ relation_name admin @ '' relation'')\<rparr>;
          blocked = (\<lambda>s'. (Returned,
                     (log_call Fail s')\<lparr>status := BlockedStatus
                        (''failed to create database or user for '' @ relation_name admin)\<rparr>))
      in case postgres_call env (CreateUser user password admin) PostgreSQLCreateUserError s of
           (Raised e, s1) \<Rightarrow>
             if e = PostgreSQLCreateUserError then blocked s1 else (Raised e, s1)
         | (Returned, s1) \<Rightarrow>
             (case postgres_call env (CreateDatabase database user)
                     PostgreSQLCreateDatabaseError s1 of
                (Raised e, s2) \<Rightarrow>
                  if e = PostgreSQLCreateDatabaseError then blocked s2 else (Raised e, s2)
              | (Returned, s2) \<Rightarrow>
                  (let s3 = s2\<lparr>status := ActiveStatus
                              (''database and user for '' @ relation_name admin @ '' relation created'')\<rparr>
                   in case initialise_auth_function env [database] s3 of
                        (Raised e, s4) \<Rightarrow> (Raised e, s4)
                      | (Returned, s4) \<Rightarrow>
                          (let s5 = peers_add_user user password s4
                           in case read_pgb_config s5 of
                                Inl e \<Rightarrow> (Raised e, s5)
                              | Inr cfg \<Rightarrow>
                                  (Returned, render_pgb_config (add_user user admin cfg) True s5)))))"

definition db_on_relation_joined :: "env \<Rightarrow> bool \<Rightarrow> relation_event \<Rightarrow> state \<Rightarrow> outcome \<times> state" where
  "db_on_relation_joined env admin join_event s0 =
     (let s = s0\<lparr>status := check_status env\<rparr>;
          rid = ev_relation join_event;
          r = relation_data s rid
      in if \<not> is_active (status s) then (Returned, log_call Defer s)
         else
           (case data_lookup env r (ev_app join_event) of
              Inl e \<Rightarrow> (Raised e, s)
            | Inr remote_app_databag \<Rightarrow>
                (case data_lookup env r (ev_unit join_event) of
                   Inl e \<Rightarrow> (Raised e, s)
                 | Inr remote_unit_databag \<Rightarrow>
                     (case requested_database remote_app_databag remote_unit_databag of
                        None \<Rightarrow>
                          (Returned, log_call Defer (s\<lparr>status := WaitingStatus
                             ''No database name provided in app or unit databag''\<rparr>))
                      | Some database \<Rightarrow>
                          if database = [] then
                            (Returned, log_call Defer (s\<lparr>status := WaitingStatus
                               ''No database name provided in app or unit databag''\<rparr>))
                          else if remote_app_databag ''extensions'' \<noteq> None
                                  \<or> remote_unit_databag ''extensions'' \<noteq> None then
                            (Returned, log_call Fail (s\<lparr>status := BlockedStatus
                               ''bad relation request - remote app requested extensions, which are unsupported. Please remove this relation.''\<rparr>))
                          else
                            (let user = generate_username env rid;
                                 (password, s1) =
                                   (if is_leader env
                                    then (case generate_password env s of (pw, s') \<Rightarrow> (Some pw, s'))
                                    else (let pw = peers_app_databag s user
                                          in (pw, if \<not> truthy pw then log_call Defer s else s)));
                                 s2 = update_databags env rid
                                        [(''user'', PyStr user),
                                         (''password'', opt_val password),
                                         (''database'', PyStr database)] s1
                             in if \<not> is_leader env then (Returned, s2)
                                else (case password of
                                        None \<Rightarrow> (Raised TypeError, s2)
                                      | Some pw \<Rightarrow> join_provision env admin user pw database s2))))))"

definition db_on_relation_changed :: "env \<Rightarrow> bool \<Rightarrow> relation_event \<Rightarrow> state \<Rightarrow> outcome \<times> state" where
  "db_on_relation_changed env admin change_event s0 =
     (let s = s0\<lparr>status := check_status env\<rparr>;
          rid = ev_relation change_event;
          databag = unit_data (relation_data s rid)
      in if \<not> is_active (status s) then (Returned, log_call Defer s)
         else
           (case (databag ''database'', databag ''user'', databag ''password'') of
              (Some database, Some user, Some password) \<Rightarrow>
                (case update_connection_info env rid (Some (listen_port env)) s of
                   (Raised e, s1) \<Rightarrow> (Raised e, s1)
                 | (Returned, s1) \<Rightarrow>
                     (case update_postgres_endpoints env admin rid True s1 of
                        (Raised e, s2) \<Rightarrow> (Raised e, s2)
                      | (Returned, s2) \<Rightarrow>
                          (let allowed_subnets = get_allowed_subnets env (relation_data s2 rid);
                               allowed_units = get_allowed_units env (relation_data s2 rid)
                           in case postgres_call env GetPostgresqlVersion
                                     PostgreSQLGetPostgreSQLVersionError s2 of
                                (Raised e, s3) \<Rightarrow> (Raised e, s3)
                              | (Returned, s3) \<Rightarrow>
                                  (Returned, update_databags env rid
                                     [(''allowed-subnets'', PyStr allowed_subnets),
                                      (''allowed-units'', PyStr allowed_units),
                                      (''version'', PyStr (postgresql_version env)),
                                      (''host'', PyStr (unit_ip env)),
                                      (''user'', PyStr user),
                                      (''password'', PyStr password),
                                      (''database'', PyStr database),
                                      (''state'', PyStr (get_state env))] s3))))
            | _ \<Rightarrow>
                (Returned, log_call Defer (s\<lparr>status := WaitingStatus
                   ''relation not fully initialised - deferring until join_event is complete''\<rparr>))))"

text \<open>
  The departed handler builds the key of the breaking flag from \<open>self.relation.id\<close>.
  DbProvides defines no attribute \<open>relation\<close> (the broken handler reads
  \<open>broken_event.relation.id\<close>), so building the key raises AttributeError and the
  assignment to the peer databag is never made.
\<close>

definition db_on_relation_departed :: "env \<Rightarrow> bool \<Rightarrow> relation_event \<Rightarrow> state \<Rightarrow> outcome \<times> state" where
  "db_on_relation_departed env admin departed_event s0 =
     (let rid = ev_relation departed_event;
          s = update_databags env rid
                [(''allowed-units'', PyStr (get_allowed_units env (relation_data s0 rid)))] s0
      in if ev_app departed_event = Application (app_name env) \<and> is_leader env
         then (Raised AttributeError, s)
         else (Returned, s))"

text \<open>
  The scan of the broken handler over the \<open>db\<close> and \<open>db-admin\<close> relations: \<open>delete_db\<close>
  stays true unless a relation other than the broken one names the database in this
  unit's databag.
\<close>

fun delete_db :: "(int \<Rightarrow> relation) \<Rightarrow> int \<Rightarrow> string \<Rightarrow> int list \<Rightarrow> bool" where
  "delete_db store broken_id database [] = True"
| "delete_db store broken_id database (rid # relations) =
     (if rid = broken_id then delete_db store broken_id database relations
      else if unit_data (store rid) ''database'' = Some database then False
      else delete_db store broken_id database relations)"

definition break_flag :: "bool \<Rightarrow> int \<Rightarrow> string" where
  "break_flag admin rid = relation_name admin @ ''-'' @ str_int rid @ ''-relation-breaking''"

text \<open>The teardown of the broken handler, from reading the Config Document on.\<close>

definition broken_teardown :: "env \<Rightarrow> int \<Rightarrow> string \<Rightarrow> string \<Rightarrow> state \<Rightarrow> outcome \<times> state" where
  "broken_teardown env rid user database s =
     (case read_pgb_config s of
        Inl e \<Rightarrow> (Raised e, s)
      | Inr cfg \<Rightarrow>
          (let relations = db_relations s @ db_admin_relations s;
               (res, cfg1, s1) =
                 (if delete_db (relation_data s) rid database relations
                  then (case remove_auth_function env [database] s of
                          (res, s') \<Rightarrow>
                            (res, cfg\<lparr>databases := (databases cfg)
                                    (database := None, standby database := None)\<rparr>, s'))
                  else (Returned, cfg, s))
           in case res of
                Raised e \<Rightarrow> (Raised e, s1)
              | Returned \<Rightarrow>
                  (let s2 = render_pgb_config (remove_user user cfg1) True s1;
                       s3 = peers_remove_user user s2
                   in case postgres_call env (DeleteUser user) PostgreSQLDeleteUserError s3 of
                        (Raised e, s4) \<Rightarrow>
                          if e = PostgreSQLDeleteUserError then (Returned, s4) else (Raised e, s4)
                      | (Returned, s4) \<Rightarrow> (Returned, s4))))"

definition db_on_relation_broken :: "env \<Rightarrow> bool \<Rightarrow> relation_event \<Rightarrow> state \<Rightarrow> outcome \<times> state" where
  "db_on_relation_broken env admin broken_event s =
     (let rid = ev_relation broken_event in
      if \<not> is_leader env then charm_update_client_connection_info env s
      else if \<not> truthy (peers_app_databag s (break_flag admin rid))
      then update_connection_info env rid None s
      else
        (let s1 = s\<lparr>peers_app_databag := (peers_app_databag s)(break_flag admin rid := None)\<rparr>;
             databag = unit_data (relation_data s1 rid)
         in case postgres env s1 of
              Inl e \<Rightarrow> (Raised e, s1)
            | Inr None \<Rightarrow> (Returned, log_call Defer s1)
            | Inr (Some _) \<Rightarrow>
                (case (databag ''user'', databag ''database'') of
                   (Some user, Some database) \<Rightarrow> broken_teardown env rid user database s1
                 | _ \<Rightarrow> (Returned, log_call Defer s1))))"

section \<open>backend\_database.py: the handlers of BackendDatabaseRequires\<close>

definition on_database_created :: "env \<Rightarrow> string \<Rightarrow> state \<Rightarrow> outcome \<times> state" where
  "on_database_created env event_username s0 =
     (let s = s0\<lparr>status := MaintenanceStatus ''Initialising backend-database relation''\<rparr>
      in if \<not> is_leader env then (Returned, s)
         else
           (case postgres env s of
              Inl e \<Rightarrow> (Raised e, s)
            | Inr None \<Rightarrow> (Returned, log_call Defer s)
            | Inr (Some _) \<Rightarrow>
                (case generate_password env s of
                   (plaintext_password, s1) \<Rightarrow>
                     (case auth_user env s1 of
                        Inl e \<Rightarrow> (Raised e, s1)
                      | Inr None \<Rightarrow> (Raised TypeError, s1)
                      | Inr (Some au) \<Rightarrow>
                          (case postgres_call env (CreateUser au plaintext_password True)
                                  PostgreSQLCreateUserError s1 of
                             (Raised e, s2) \<Rightarrow> (Raised e, s2)
                           | (Returned, s2) \<Rightarrow>
                               (case initialise_auth_function env [const_PGB env, const_PG env] s2 of
                                  (Raised e, s3) \<Rightarrow> (Raised e, s3)
                                | (Returned, s3) \<Rightarrow>
                                    (let hashed_password = get_hashed_password env au plaintext_password;
                                         s4 = render_auth_file env
                                                ([CHR 0x22] @ au @ [CHR 0x22, CHR '' '', CHR 0x22]
                                                 @ hashed_password @ [CHR 0x22]) s3
                                     in case read_pgb_config s4 of
                                          Inl e \<Rightarrow> (Raised e, s4)
                                        | Inr cfg \<Rightarrow>
                                            (let cfg1 = add_user event_username True cfg;
                                                 cfg2 = cfg1\<lparr>pgbouncer := (pgbouncer cfg1)
                                                   (''auth_query'' \<mapsto>
                                                      ''SELECT username, password FROM '' @ au @ ''.get_auth($1)'',
                                                    ''auth_file'' \<mapsto> const_AUTH_FILE_PATH env)\<rparr>;
                                                 s5 = render_pgb_config cfg2 False s4
                                             in case charm_update_postgres_endpoints env True s5 of
                                                  (Raised e, s6) \<Rightarrow> (Raised e, s6)
                                                | (Returned, s6) \<Rightarrow>
                                                    (Returned, s6\<lparr>status := ActiveStatus
                                                       ''backend-database relation initialised.''\<rparr>)))))))))"

definition on_endpoints_changed :: "env \<Rightarrow> state \<Rightarrow> outcome \<times> state" where
  "on_endpoints_changed env s = charm_update_postgres_endpoints env True s"

definition backend_on_relation_departed :: "env \<Rightarrow> entity option \<Rightarrow> state \<Rightarrow> outcome \<times> state" where
  "backend_on_relation_departed env departing_unit s =
     (if departing_unit \<noteq> Some (Unit (unit_name env) (app_name env)) \<or> \<not> is_leader env
      then (Returned, s)
      else
        (case remove_auth_function env [const_PGB env, const_PG env] s of
           (Raised e, s1) \<Rightarrow>
             if e = Psycopg2Error
             then (Returned, log_call Fail (s1\<lparr>status := BlockedStatus
                     ''failed to remove auth user when disconnecting from postgres application.''\<rparr>))
             else (Raised e, s1)
         | (Returned, s1) \<Rightarrow>
             (case postgres env s1 of
                Inl e \<Rightarrow> (Raised e, s1)
              | Inr None \<Rightarrow> (Raised AttributeError, s1)
              | Inr (Some _) \<Rightarrow>
                  (case auth_user env s1 of
                     Inl e \<Rightarrow> (Raised e, s1)
                   | Inr None \<Rightarrow> (Raised TypeError, s1)
                   | Inr (Some au) \<Rightarrow> external env (DeleteUser au) PostgreSQLDeleteUserError s1))))"

definition backend_on_relation_broken :: "env \<Rightarrow> state \<Rightarrow> outcome \<times> state" where
  "backend_on_relation_broken env s =
     (case read_pgb_config s of
        Inl e \<Rightarrow> if e = FileNotFoundError then (Returned, log_call Defer s) else (Raised e, s)
      | Inr cfg \<Rightarrow>
          (case postgres env s of
             Inl e \<Rightarrow> (Raised e, s)
           | Inr None \<Rightarrow> (Raised AttributeError, s)
           | Inr (Some pg) \<Rightarrow>
               (let cfg1 = remove_user (pg_user pg) cfg;
                    cfg2 = cfg1\<lparr>pgbouncer := (pgbouncer cfg1)(''auth_user'' := None)\<rparr>;
                    cfg3 = cfg2\<lparr>pgbouncer := (pgbouncer cfg2)(''auth_query'' := None)\<rparr>;
                    s1 = render_pgb_config cfg3 False s
                in (Returned, delete_file (const_PGB_DIR env @ ''/userlist.txt'') s1))))"

section \<open>Notifications\<close>

text \<open>
  The notifications the two controllers handle; a client notification carries the
  flavor of its relation (\<open>True\<close> for \<open>db-admin\<close>).
\<close>

datatype notification =
    ClientJoined bool relation_event
  | ClientChanged bool relation_event
  | ClientDeparted bool relation_event
  | ClientBroken bool relation_event
  | BackendDatabaseCreated string
  | BackendEndpointsChanged
  | BackendDeparted "entity option"
  | BackendBroken

fun handle :: "env \<Rightarrow> notification \<Rightarrow> state \<Rightarrow> outcome \<times> state" where
  "handle env (ClientJoined admin ev) s = db_on_relation_joined env admin ev s"
| "handle env (ClientChanged admin ev) s = db_on_relation_changed env admin ev s"
| "handle env (ClientDeparted admin ev) s = db_on_relation_departed env admin ev s"
| "handle env (ClientBroken admin ev) s = db_on_relation_broken env admin ev s"
| "handle env (BackendDatabaseCreated username) s = on_database_created env username s"
| "handle env BackendEndpointsChanged s = on_endpoints_changed env s"
| "handle env (BackendDeparted departing_unit) s = backend_on_relation_departed env departing_unit s"
| "handle env BackendBroken s = backend_on_relation_broken env s"

text \<open>
  A sequence of notifications, each delivered to the process in the environment it has
  at that moment. A handler that raises ends its own notification only; what it did
  before stays done.
\<close>

fun run :: "(env \<times> notification) list \<Rightarrow> state \<Rightarrow> state" where
  "run [] s = s"
| "run ((env, n) # rest) s = run rest (snd (handle env n s))"

text \<open>The external calls that create or delete a role or a database, or install or remove the auth function.\<close>

fun mutates_backend :: "call \<Rightarrow> bool" where
  "mutates_backend (CreateUser _ _ _) = True"
| "mutates_backend (CreateDatabase _ _) = True"
| "mutates_backend (DeleteUser _) = True"
| "mutates_backend (Execute _ _) = True"
| "mutates_backend _ = False"

section \<open>An example deployment\<close>

text \<open>
  A pgbouncer unit in model \<open>test-db\<close>, related to a PostgreSQL backend that has
  published its endpoint and credentials, and to one client application \<open>psql\<close> over
  relation 4, which asks for the database \<open>cli\<close>. The theorems below are instantiated
  on variations of it.
\<close>

definition demo_env :: env where
  "demo_env =
     \<lparr>app_name = ''pgbouncer'', unit_name = ''pgbouncer/1'', model_name = ''test-db'',
      is_leader = False, unit_ip = ''10.0.0.5'', listen_port = 6432,
      const_PG = ''postgres'', const_PGB = ''pgbouncer'',
      const_PGB_DIR = ''/var/lib/postgresql/pgbouncer'',
      const_AUTH_FILE_PATH = ''/var/lib/postgresql/pgbouncer/userlist.txt'',
      check_status = ActiveStatus [],
      postgresql_version = ''12.12'', random_password = (\<lambda>n. ''T6NX0iz1ZRHZF5kfYDanKM5z''),
      get_hashed_password = (\<lambda>user password. ''md5'' @ password @ user),
      fails = (\<lambda>c. False)\<rparr>"

definition demo_leader :: env where
  "demo_leader = demo_env\<lparr>unit_name := ''pgbouncer/0'', is_leader := True\<rparr>"

definition demo_client :: relation where
  "demo_client =
     \<lparr>unit_data = Map.empty, app_data = Map.empty,
      remote_data = [(Unit ''psql/0'' ''psql'', [''database'' \<mapsto> ''cli'']),
                     (Application ''psql'', Map.empty)]\<rparr>"

definition demo_backend :: relation where
  "demo_backend =
     \<lparr>unit_data = Map.empty, app_data = Map.empty,
      remote_data = [(Unit ''postgresql/0'' ''postgresql'', Map.empty),
                     (Application ''postgresql'',
                      [''endpoints'' \<mapsto> ''10.0.0.2:5432'', ''username'' \<mapsto> ''relation-3'',
                       ''password'' \<mapsto> ''yPEgUWCYX0SBxpvC''])]\<rparr>"

definition demo_config :: pgb_config where
  "demo_config =
     \<lparr>databases = Map.empty, users = Map.empty, pgbouncer = [''listen_port'' \<mapsto> ''6432'']\<rparr>"

definition demo_state :: state where
  "demo_state =
     \<lparr>status = MaintenanceStatus [], peers_app_databag = Map.empty,
      persisted_config = Some demo_config, files = Map.empty,
      backend_relation = Some demo_backend, db_relations = [4], db_admin_relations = [],
      relation_data = (\<lambda>rid. demo_client), generated = 0, calls = []\<rparr>"

definition demo_join :: relation_event where
  "demo_join = \<lparr>ev_relation = 4, ev_app = Application ''psql'', ev_unit = Unit ''psql/0'' ''psql''\<rparr>"

definition demo_departed :: relation_event where
  "demo_departed =
     \<lparr>ev_relation = 4, ev_app = Application ''pgbouncer'', ev_unit = Unit ''pgbouncer/0'' ''pgbouncer''\<rparr>"

text \<open>The client relation after a completed join, and the example with it in place.\<close>

definition demo_provisioned :: relation where
  "demo_provisioned =
     demo_client\<lparr>unit_data := [''user'' \<mapsto> ''pgbouncer_user_4_test_db'',
                               ''password'' \<mapsto> ''T6NX0iz1ZRHZF5kfYDanKM5z'',
                               ''database'' \<mapsto> ''cli'']\<rparr>"

definition demo_provisioned_state :: state where
  "demo_provisioned_state = demo_state\<lparr>relation_data := (\<lambda>rid. demo_provisioned)\<rparr>"

definition demo_broken :: relation_event where
  "demo_broken = \<lparr>ev_relation = 4, ev_app = Application ''psql'', ev_unit = Unit ''psql/0'' ''psql''\<rparr>"

text \<open>One notification of every kind, delivered to the non-leader unit of the example.\<close>

definition demo_notifications :: "(env \<times> notification) list" where
  "demo_notifications =
     [(demo_env, BackendDatabaseCreated ''relation-3''),
      (demo_env, ClientJoined False demo_join),
      (demo_env, ClientChanged False demo_join),
      (demo_env, BackendEndpointsChanged),
      (demo_env, ClientDeparted False demo_departed),
      (demo_env, ClientBroken False demo_broken),
      (demo_env, BackendDeparted (Some (Unit ''pgbouncer/1'' ''pgbouncer''))),
      (demo_env, BackendBroken)]"

text \<open>
  The example at teardown: routes for \<open>cli\<close> and its standby alias are in the Config
  Document and the breaking flag of relation 4 is set. In \<open>demo_breaking_state\<close>
  relation 4 is the only client relation; in \<open>demo_shared_state\<close> the \<open>db-admin\<close>
  relation 7 names the same database.
\<close>

definition demo_route :: route where
  "demo_route =
     \<lparr>r_host = ''10.0.0.2'', r_dbname = ''cli'', r_port = ''5432'',
      r_auth_user = Some ''pgbouncer_auth_relation_3''\<rparr>"

definition demo_routes :: pgb_config where
  "demo_routes =
     demo_config\<lparr>databases := [''cli'' \<mapsto> demo_route,
                                ''cli_standby'' \<mapsto> demo_route\<lparr>r_host := ''10.0.0.3''\<rparr>],
                  users := [''pgbouncer_user_4_test_db'' \<mapsto> False]\<rparr>"

definition demo_breaking_state :: state where
  "demo_breaking_state =
     demo_provisioned_state
       \<lparr>peers_app_databag := [''db-4-relation-breaking'' \<mapsto> ''true'',
                               ''pgbouncer_user_4_test_db'' \<mapsto> ''T6NX0iz1ZRHZF5kfYDanKM5z''],
        persisted_config := Some demo_routes\<rparr>"

definition demo_shared_state :: state where
  "demo_shared_state = demo_breaking_state\<lparr>db_admin_relations := [7]\<rparr>"

text \<open>
  The example after the replicas are gone: the backend databag lists a primary endpoint
  and no read-only endpoint, and the Config Document still holds the alias
  \<open>cli_standby\<close> from before.
\<close>

definition demo_stale_state :: state where
  "demo_stale_state = demo_provisioned_state\<lparr>persisted_config := Some demo_routes\<rparr>"

section \<open>Properties of auth\_user\<close>

lemma auth_user_username_absent:
  "postgres_databag env s = Some databag \<Longrightarrow> databag ''username'' = None \<Longrightarrow>
   auth_user env s = Inr None"
  by (simp add: auth_user_def)

lemma auth_user_username_present:
  "postgres_databag env s = Some databag \<Longrightarrow> databag ''username'' = Some u \<Longrightarrow>
   auth_user env s = Inr (Some (replace_dash (''pgbouncer_auth_'' @ u)))"
  by (simp add: auth_user_def)

text \<open>
  C9. With the backend relation absent entirely, evaluating \<open>auth_user\<close> raises
  AttributeError: \<open>postgres_databag\<close> is \<open>None\<close> and \<open>auth_user\<close> calls \<open>get\<close> on it. The
  claim says it returns \<open>None\<close> there.
\<close>

theorem auth_user_relation_absent_raises:
  "auth_user env (s\<lparr>backend_relation := None\<rparr>) = Inl AttributeError"
  by (simp add: auth_user_def postgres_databag_def)

section \<open>Frame lemmas\<close>

lemma calls_log_call [simp]: "calls (log_call c s) = calls s @ [c]"
  by (simp add: log_call_def)

lemma log_call_frame [simp]:
  "relation_data (log_call c s) = relation_data s"
  "peers_app_databag (log_call c s) = peers_app_databag s"
  "persisted_config (log_call c s) = persisted_config s"
  "generated (log_call c s) = generated s"
  "files (log_call c s) = files s"
  "backend_relation (log_call c s) = backend_relation s"
  "db_relations (log_call c s) = db_relations s"
  "db_admin_relations (log_call c s) = db_admin_relations s"
  "status (log_call c s) = status s"
  by (simp_all add: log_call_def)

lemma update_databags_frame [simp]:
  "calls (update_databags env rid ups s) = calls s"
  "peers_app_databag (update_databags env rid ups s) = peers_app_databag s"
  "persisted_config (update_databags env rid ups s) = persisted_config s"
  "generated (update_databags env rid ups s) = generated s"
  "files (update_databags env rid ups s) = files s"
  "backend_relation (update_databags env rid ups s) = backend_relation s"
  "db_relations (update_databags env rid ups s) = db_relations s"
  "db_admin_relations (update_databags env rid ups s) = db_admin_relations s"
  "status (update_databags env rid ups s) = status s"
  by (simp_all add: update_databags_def Let_def)

lemma update_databags_unit_data:
  "unit_data (relation_data (update_databags env rid ups s) rid) =
   bag_update (unit_data (relation_data s rid)) (map (\<lambda>(k, v). (k, py_str v)) ups)"
  by (simp add: update_databags_def Let_def)

lemma update_databags_app_data:
  "app_data (relation_data (update_databags env rid ups s) rid) =
   (if is_leader env
    then bag_update (app_data (relation_data s rid)) (map (\<lambda>(k, v). (k, py_str v)) ups)
    else app_data (relation_data s rid))"
  by (simp add: update_databags_def Let_def)

section \<open>The join handler on a non-leader\<close>

text \<open>
  C10. On a join notification handled by a non-leader, when the peer databag has no
  password for the derived username, the handler defers and still goes on: it writes
  user, password and database into the unit databag only, and the password it
  publishes is the string \<open>None\<close>, the result of \<open>str\<close> on the missing value.
\<close>

theorem join_nonleader_no_password:
  assumes "\<not> is_leader env"
    and "is_active (check_status env)"
    and "data_lookup env (relation_data s (ev_relation ev)) (ev_app ev) = Inr remote_app_databag"
    and "data_lookup env (relation_data s (ev_relation ev)) (ev_unit ev) = Inr remote_unit_databag"
    and "requested_database remote_app_databag remote_unit_databag = Some database"
    and "database \<noteq> []"
    and "remote_app_databag ''extensions'' = None"
    and "remote_unit_databag ''extensions'' = None"
    and "peers_app_databag s (generate_username env (ev_relation ev)) = None"
  shows "\<exists>s'. db_on_relation_joined env admin ev s = (Returned, s')
           \<and> calls s' = calls s @ [Defer]
           \<and> unit_data (relation_data s' (ev_relation ev)) =
               (unit_data (relation_data s (ev_relation ev)))
                 (''user'' \<mapsto> generate_username env (ev_relation ev),
                  ''password'' \<mapsto> ''None'',
                  ''database'' \<mapsto> database)
           \<and> app_data (relation_data s' (ev_relation ev)) = app_data (relation_data s (ev_relation ev))
           \<and> generated s' = generated s"
  using assms
  by (simp add: db_on_relation_joined_def Let_def truthy_def opt_val_def
      update_databags_unit_data update_databags_app_data bag_update_def)


lemma str_int_4: "str_int 4 = ''4''"
  by (simp add: str_int_def str_nat.simps)

lemma demo_username: "generate_username demo_env 4 = ''pgbouncer_user_4_test_db''"
  by (simp add: generate_username_def demo_env_def replace_dash_def str_int_4)

lemma demo_lookup_app: "data_lookup demo_env (relation_data demo_state 4) (ev_app demo_join) = Inr Map.empty"
  by (simp add: data_lookup_def data_items_def demo_env_def demo_state_def demo_client_def demo_join_def)

lemma demo_lookup_unit: "data_lookup demo_env (relation_data demo_state 4) (ev_unit demo_join) = Inr [''database'' \<mapsto> ''cli'']"
  by (simp add: data_lookup_def data_items_def demo_env_def demo_state_def demo_client_def demo_join_def)

theorem join_nonleader_no_password_witness:
  "\<exists>s'. db_on_relation_joined demo_env False demo_join demo_state = (Returned, s')
     \<and> calls s' = [Defer]
     \<and> unit_data (relation_data s' 4) ''password'' = Some ''None''
     \<and> unit_data (relation_data s' 4) ''user'' = Some ''pgbouncer_user_4_test_db''
     \<and> unit_data (relation_data s' 4) ''database'' = Some ''cli''"
proof -
  have ev: "ev_relation demo_join = 4" by (simp add: demo_join_def)
  have "\<exists>s'. db_on_relation_joined demo_env False demo_join demo_state = (Returned, s')
           \<and> calls s' = calls demo_state @ [Defer]
           \<and> unit_data (relation_data s' (ev_relation demo_join)) =
               (unit_data (relation_data demo_state (ev_relation demo_join)))
                 (''user'' \<mapsto> generate_username demo_env (ev_relation demo_join),
                  ''password'' \<mapsto> ''None'',
                  ''database'' \<mapsto> ''cli'')
           \<and> app_data (relation_data s' (ev_relation demo_join)) = app_data (relation_data demo_state (ev_relation demo_join))
           \<and> generated s' = generated demo_state"
    apply (rule join_nonleader_no_password [where remote_app_databag = Map.empty and remote_unit_databag = "[''database'' \<mapsto> ''cli'']"])
            apply (simp add: demo_env_def)
            apply (simp add: demo_env_def)
          apply (simp add: ev demo_lookup_app [simplified ev])
    using demo_lookup_app demo_lookup_unit
         apply (simp_all add: ev requested_database_def truthy_def demo_username)
    apply (simp add: demo_state_def)
    done
  then show ?thesis
    by (auto simp: ev demo_username demo_state_def)
qed

section \<open>The departed handler and the breaking flag\<close>

lemma departed_keeps_peers:
  "peers_app_databag (snd (db_on_relation_departed env admin ev s)) = peers_app_databag s"
  by (simp add: db_on_relation_departed_def Let_def)

lemma departed_other_cases_return:
  "\<not> (ev_app ev = Application (app_name env) \<and> is_leader env) \<Longrightarrow>
   fst (db_on_relation_departed env admin ev s) = Returned"
  by (auto simp: db_on_relation_departed_def Let_def)

text \<open>
  C4. On the leader, with the departing application equal to this unit's own
  application, the departed handler raises AttributeError while it builds the key of
  the breaking flag, and the peer databag holds no flag for the relation afterwards.
  The claim says the flag is written there.
\<close>

theorem departed_own_app_on_leader_raises:
  "fst (db_on_relation_departed demo_leader False demo_departed demo_state) = Raised AttributeError
   \<and> peers_app_databag (snd (db_on_relation_departed demo_leader False demo_departed demo_state))
        (break_flag False 4) = None"
  by (simp add: db_on_relation_departed_def Let_def demo_departed_def demo_leader_def
      demo_env_def demo_state_def)

section \<open>The backend relation-broken handler\<close>

lemma backend_broken_defers_without_config:
  "persisted_config s = None \<Longrightarrow>
   backend_on_relation_broken env s = (Returned, log_call Defer s)"
  by (simp add: backend_on_relation_broken_def read_pgb_config_def)

lemma backend_broken_strips:
  assumes "persisted_config s = Some cfg" and "postgres env s = Inr (Some pg)"
  shows "\<exists>s'. backend_on_relation_broken env s = (Returned, s')
           \<and> persisted_config s' = Some (cfg\<lparr>users := (users cfg)(pg_user pg := None),
                  pgbouncer := (pgbouncer cfg)(''auth_user'' := None, ''auth_query'' := None)\<rparr>)
           \<and> files s' = (files s)(const_PGB_DIR env @ ''/userlist.txt'' := None)"
  using assms
  by (simp add: backend_on_relation_broken_def read_pgb_config_def Let_def remove_user_def
      render_pgb_config_def delete_file_def log_call_def)

lemma backend_broken_keeps_auth_file_setting:
  assumes "persisted_config s = Some cfg" and "postgres env s = Inr (Some pg)"
  shows "map_option (\<lambda>c. pgbouncer c ''auth_file'')
           (persisted_config (snd (backend_on_relation_broken env s)))
         = Some (pgbouncer cfg ''auth_file'')"
  using backend_broken_strips [OF assms] by auto


lemma demo_postgres_databag:
  "backend_relation s = Some demo_backend \<Longrightarrow>
   postgres_databag demo_leader s =
     Some [''endpoints'' \<mapsto> ''10.0.0.2:5432'', ''username'' \<mapsto> ''relation-3'',
           ''password'' \<mapsto> ''yPEgUWCYX0SBxpvC'']"
  by (simp add: postgres_databag_def data_items_def demo_backend_def demo_leader_def demo_env_def)

lemma demo_created:
  "\<exists>s'. on_database_created demo_leader ''relation-3'' demo_state = (Returned, s')
     \<and> map_option pgbouncer (persisted_config s') = Some [''listen_port'' \<mapsto> ''6432'', ''auth_query'' \<mapsto> ''SELECT username, password FROM pgbouncer_auth_relation_3.get_auth($1)'', ''auth_file'' \<mapsto> ''/var/lib/postgresql/pgbouncer/userlist.txt'']
     \<and> backend_relation s' = Some demo_backend"
  apply (simp add: on_database_created_def Let_def postgres_def auth_user_def demo_postgres_databag
      demo_state_def generate_password_def postgres_call_def external_def log_call_def
      initialise_auth_function_def run_script_def render_auth_file_def read_pgb_config_def
      render_pgb_config_def charm_update_postgres_endpoints_def update_postgres_endpoints_def
      add_user_def demo_config_def demo_client_def replace_dash_def split: prod.splits)
  apply (simp add: demo_leader_def demo_env_def)
  done


lemma demo_postgres:
  "backend_relation s = Some demo_backend \<Longrightarrow>
   postgres demo_leader s =
     Inr (Some \<lparr>pg_host = ''10.0.0.2'', pg_user = ''relation-3'',
                pg_password = ''yPEgUWCYX0SBxpvC'', pg_database = ''pgbouncer''\<rparr>)"
  by (simp add: postgres_def demo_postgres_databag split0_def)
     (simp add: demo_leader_def demo_env_def)

text \<open>
  C6. After the database-created handler has installed \<open>auth_query\<close> and \<open>auth_file\<close> in
  the Config Document, the backend relation-broken handler returns with the \<open>auth_file\<close>
  setting still in place: it pops \<open>auth_user\<close> and \<open>auth_query\<close> only. The claim says
  every auth-related entry is removed, \<open>auth_file\<close> included.
\<close>

theorem backend_broken_leaves_auth_file:
  "fst (backend_on_relation_broken demo_leader
          (snd (on_database_created demo_leader ''relation-3'' demo_state))) = Returned
   \<and> map_option (\<lambda>c. (pgbouncer c ''auth_file'', pgbouncer c ''auth_query''))
        (persisted_config (snd (backend_on_relation_broken demo_leader
          (snd (on_database_created demo_leader ''relation-3'' demo_state)))))
     = Some (Some ''/var/lib/postgresql/pgbouncer/userlist.txt'', None)"
proof -
  obtain s1 where s1: "on_database_created demo_leader ''relation-3'' demo_state = (Returned, s1)"
    and pgb: "map_option pgbouncer (persisted_config s1) =
      Some [''listen_port'' \<mapsto> ''6432'', ''auth_query'' \<mapsto> ''SELECT username, password FROM pgbouncer_auth_relation_3.get_auth($1)'', ''auth_file'' \<mapsto> ''/var/lib/postgresql/pgbouncer/userlist.txt'']"
    and br: "backend_relation s1 = Some demo_backend"
    using demo_created by blast
  from pgb obtain cfg where cfg: "persisted_config s1 = Some cfg"
    and pc: "pgbouncer cfg = [''listen_port'' \<mapsto> ''6432'', ''auth_query'' \<mapsto> ''SELECT username, password FROM pgbouncer_auth_relation_3.get_auth($1)'', ''auth_file'' \<mapsto> ''/var/lib/postgresql/pgbouncer/userlist.txt'']"
    by auto
  from backend_broken_strips [OF cfg demo_postgres [OF br]]
  obtain s2 where s2: "backend_on_relation_broken demo_leader s1 = (Returned, s2)"
    and c2: "persisted_config s2 = Some (cfg\<lparr>users := (users cfg)(''relation-3'' := None),
                  pgbouncer := (pgbouncer cfg)(''auth_user'' := None, ''auth_query'' := None)\<rparr>)"
    by auto
  show ?thesis
    by (simp add: s1 s2 c2 pc)
qed

section \<open>What the loops and the external calls leave unchanged\<close>

lemma for_each_preserves:
  assumes "\<And>x s. f (snd (body x s)) = f s"
  shows "f (snd (for_each body xs s)) = f s"
proof (induction xs arbitrary: s)
  case Nil
  show ?case by simp
next
  case (Cons x xs)
  obtain out s1 where b: "body x s = (out, s1)" by (cases "body x s")
  have f1: "f s1 = f s" using assms [of x s] b by simp
  show ?case
  proof (cases out)
    case Returned
    then show ?thesis using b Cons.IH [of s1] f1 by simp
  next
    case (Raised e)
    then show ?thesis using b f1 by simp
  qed
qed

lemma external_frame [simp]:
  "relation_data (snd (external env c e s)) = relation_data s"
  "generated (snd (external env c e s)) = generated s"
  "peers_app_databag (snd (external env c e s)) = peers_app_databag s"
  "persisted_config (snd (external env c e s)) = persisted_config s"
  "backend_relation (snd (external env c e s)) = backend_relation s"
  "db_relations (snd (external env c e s)) = db_relations s"
  "db_admin_relations (snd (external env c e s)) = db_admin_relations s"
  "calls (snd (external env c e s)) = calls s @ [c]"
  by (simp_all add: external_def)

lemma postgres_call_frame [simp]:
  "relation_data (snd (postgres_call env c e s)) = relation_data s"
  "generated (snd (postgres_call env c e s)) = generated s"
  "peers_app_databag (snd (postgres_call env c e s)) = peers_app_databag s"
  "persisted_config (snd (postgres_call env c e s)) = persisted_config s"
  "backend_relation (snd (postgres_call env c e s)) = backend_relation s"
  "db_relations (snd (postgres_call env c e s)) = db_relations s"
  "db_admin_relations (snd (postgres_call env c e s)) = db_admin_relations s"
  by (simp_all add: postgres_call_def split: sum.splits option.splits)

lemma run_script_frame [simp]:
  "relation_data (snd (run_script env script db s)) = relation_data s"
  "generated (snd (run_script env script db s)) = generated s"
  "peers_app_databag (snd (run_script env script db s)) = peers_app_databag s"
  "persisted_config (snd (run_script env script db s)) = persisted_config s"
  "backend_relation (snd (run_script env script db s)) = backend_relation s"
  "db_relations (snd (run_script env script db s)) = db_relations s"
  "db_admin_relations (snd (run_script env script db s)) = db_admin_relations s"
  by (simp_all add: run_script_def split: sum.splits option.splits)

lemma initialise_auth_function_frame [simp]:
  "relation_data (snd (initialise_auth_function env dbs s)) = relation_data s"
  "generated (snd (initialise_auth_function env dbs s)) = generated s"
  "peers_app_databag (snd (initialise_auth_function env dbs s)) = peers_app_databag s"
  "persisted_config (snd (initialise_auth_function env dbs s)) = persisted_config s"
  "backend_relation (snd (initialise_auth_function env dbs s)) = backend_relation s"
  "db_relations (snd (initialise_auth_function env dbs s)) = db_relations s"
  "db_admin_relations (snd (initialise_auth_function env dbs s)) = db_admin_relations s"
  unfolding initialise_auth_function_def
  by (rule for_each_preserves, simp)+

lemma remove_auth_function_frame [simp]:
  "relation_data (snd (remove_auth_function env dbs s)) = relation_data s"
  "generated (snd (remove_auth_function env dbs s)) = generated s"
  "peers_app_databag (snd (remove_auth_function env dbs s)) = peers_app_databag s"
  "persisted_config (snd (remove_auth_function env dbs s)) = persisted_config s"
  "backend_relation (snd (remove_auth_function env dbs s)) = backend_relation s"
  "db_relations (snd (remove_auth_function env dbs s)) = db_relations s"
  "db_admin_relations (snd (remove_auth_function env dbs s)) = db_admin_relations s"
  unfolding remove_auth_function_def
  by (rule for_each_preserves, simp)+

lemma render_pgb_config_frame [simp]:
  "relation_data (render_pgb_config cfg rl s) = relation_data s"
  "generated (render_pgb_config cfg rl s) = generated s"
  "peers_app_databag (render_pgb_config cfg rl s) = peers_app_databag s"
  "persisted_config (render_pgb_config cfg rl s) = Some cfg"
  "backend_relation (render_pgb_config cfg rl s) = backend_relation s"
  "db_relations (render_pgb_config cfg rl s) = db_relations s"
  "db_admin_relations (render_pgb_config cfg rl s) = db_admin_relations s"
  "calls (render_pgb_config cfg rl s) = calls s @ [RenderPgbConfig rl]"
  by (simp_all add: render_pgb_config_def)

lemma join_provision_frame:
  "relation_data (snd (join_provision env admin user pw database s)) = relation_data s"
  "generated (snd (join_provision env admin user pw database s)) = generated s"
  by (auto simp: join_provision_def Let_def postgres_call_def external_def
      initialise_auth_function_def run_script_def peers_add_user_def read_pgb_config_def
      split: sum.splits option.splits outcome.splits if_splits)

lemma demo_env_pgb_username:
  "generate_username (demo_env\<lparr>app_name := ''pgb''\<rparr>) 4 = ''pgb_user_4_test_db''"
  by (simp add: generate_username_def demo_env_def replace_dash_def str_int_4)

lemma join_nonleader_user:
  assumes "\<not> is_leader env"
    and "is_active (check_status env)"
    and "data_lookup env (relation_data s (ev_relation ev)) (ev_app ev) = Inr remote_app_databag"
    and "data_lookup env (relation_data s (ev_relation ev)) (ev_unit ev) = Inr remote_unit_databag"
    and "requested_database remote_app_databag remote_unit_databag = Some database"
    and "database \<noteq> []"
    and "remote_app_databag ''extensions'' = None"
    and "remote_unit_databag ''extensions'' = None"
  shows "fst (db_on_relation_joined env admin ev s) = Returned"
    and "unit_data (relation_data (snd (db_on_relation_joined env admin ev s)) (ev_relation ev)) ''user''
           = Some (generate_username env (ev_relation ev))"
    and "unit_data (relation_data (snd (db_on_relation_joined env admin ev s)) (ev_relation ev)) ''password''
           = Some (py_str (opt_val (peers_app_databag s (generate_username env (ev_relation ev)))))"
    and "generated (snd (db_on_relation_joined env admin ev s)) = generated s"
    and "calls (snd (db_on_relation_joined env admin ev s)) =
           calls s @ (if truthy (peers_app_databag s (generate_username env (ev_relation ev)))
                      then [] else [Defer])"
  using assms
  by (simp_all add: db_on_relation_joined_def Let_def
      update_databags_unit_data bag_update_def)

lemma join_leader_user:
  assumes "is_leader env"
    and "is_active (check_status env)"
    and "data_lookup env (relation_data s (ev_relation ev)) (ev_app ev) = Inr remote_app_databag"
    and "data_lookup env (relation_data s (ev_relation ev)) (ev_unit ev) = Inr remote_unit_databag"
    and "requested_database remote_app_databag remote_unit_databag = Some database"
    and "database \<noteq> []"
    and "remote_app_databag ''extensions'' = None"
    and "remote_unit_databag ''extensions'' = None"
  shows "unit_data (relation_data (snd (db_on_relation_joined env admin ev s)) (ev_relation ev)) ''user''
           = Some (generate_username env (ev_relation ev))"
    and "unit_data (relation_data (snd (db_on_relation_joined env admin ev s)) (ev_relation ev)) ''password''
           = Some (random_password env (generated s))"
    and "generated (snd (db_on_relation_joined env admin ev s)) = Suc (generated s)"
  using assms
  by (simp_all add: db_on_relation_joined_def Let_def generate_password_def opt_val_def
      join_provision_frame update_databags_unit_data bag_update_def)

section \<open>Username and password of the join handler\<close>

text \<open>
  C5, as stated, fails: the username is not a function of the requesting application,
  the relation id and the model. Two pgbouncer deployments that differ only in their own
  application name publish different usernames to the same requesting application
  \<open>psql\<close> over relation 4 in model \<open>test-db\<close>.
\<close>

theorem username_of_requesting_app_counterexample:
  "unit_data (relation_data (snd (db_on_relation_joined demo_env False demo_join demo_state)) 4) ''user''
   \<noteq> unit_data (relation_data
         (snd (db_on_relation_joined (demo_env\<lparr>app_name := ''pgb''\<rparr>) False demo_join demo_state)) 4)
         ''user''"
proof -
  have ev: "ev_relation demo_join = 4" by (simp add: demo_join_def)
  have a: "unit_data (relation_data (snd (db_on_relation_joined demo_env False demo_join demo_state)) 4) ''user''
      = Some ''pgbouncer_user_4_test_db''"
    using join_nonleader_user(2) [of demo_env demo_state demo_join Map.empty
        "[''database'' \<mapsto> ''cli'']" "''cli''" False]
      demo_lookup_app demo_lookup_unit
    by (simp add: ev demo_username requested_database_def truthy_def)
       (simp add: demo_env_def)
  have la: "data_lookup (demo_env\<lparr>app_name := ''pgb''\<rparr>) (relation_data demo_state 4) (ev_app demo_join) = Inr Map.empty"
    by (simp add: data_lookup_def data_items_def demo_env_def demo_state_def demo_client_def demo_join_def)
  have lu: "data_lookup (demo_env\<lparr>app_name := ''pgb''\<rparr>) (relation_data demo_state 4) (ev_unit demo_join) = Inr [''database'' \<mapsto> ''cli'']"
    by (simp add: data_lookup_def data_items_def demo_env_def demo_state_def demo_client_def demo_join_def)
  have b: "unit_data (relation_data (snd (db_on_relation_joined (demo_env\<lparr>app_name := ''pgb''\<rparr>) False demo_join demo_state)) 4) ''user''
      = Some ''pgb_user_4_test_db''"
    using join_nonleader_user(2) [of "demo_env\<lparr>app_name := ''pgb''\<rparr>" demo_state demo_join Map.empty
        "[''database'' \<mapsto> ''cli'']" "''cli''" False]
      la lu
    by (simp add: ev demo_env_pgb_username requested_database_def truthy_def)
       (simp add: demo_env_def)
  show ?thesis by (simp add: a b)
qed

text \<open>
  C5, amended. On a join notification that gets past the readiness, database and
  extension checks, the username written to the unit databag is
  \<open>{app}_user_{relation id}_{model}\<close> with dashes replaced by underscores, where
  \<open>app\<close> is the name of this operator's own application. The leader generates one
  fresh password and publishes it. A non-leader generates none: it publishes what the
  peer databag holds for the username, signals defer when that is missing or empty, and
  returns.
\<close>

theorem join_username_and_password:
  assumes "is_active (check_status env)"
    and "data_lookup env (relation_data s (ev_relation ev)) (ev_app ev) = Inr remote_app_databag"
    and "data_lookup env (relation_data s (ev_relation ev)) (ev_unit ev) = Inr remote_unit_databag"
    and "requested_database remote_app_databag remote_unit_databag = Some database"
    and "database \<noteq> []"
    and "remote_app_databag ''extensions'' = None"
    and "remote_unit_databag ''extensions'' = None"
    and "db_on_relation_joined env admin ev s = (out, s')"
    and "user = replace_dash (app_name env @ ''_user_'' @ str_int (ev_relation ev) @ ''_'' @ model_name env)"
  shows "unit_data (relation_data s' (ev_relation ev)) ''user'' = Some user
       \<and> (if is_leader env
          then generated s' = Suc (generated s)
             \<and> unit_data (relation_data s' (ev_relation ev)) ''password''
                 = Some (random_password env (generated s))
          else generated s' = generated s
             \<and> unit_data (relation_data s' (ev_relation ev)) ''password''
                 = Some (py_str (opt_val (peers_app_databag s user)))
             \<and> calls s' = calls s @ (if truthy (peers_app_databag s user) then [] else [Defer])
             \<and> out = Returned)"
proof (cases "is_leader env")
  case True
  from join_leader_user [OF True assms(1-7), of admin] assms(8,9) True
  show ?thesis by (simp add: generate_username_def)
next
  case False
  from join_nonleader_user [OF False assms(1-7), of admin] assms(8,9) False
  show ?thesis by (simp add: generate_username_def)
qed

lemma demo_leader_lookup_app: "data_lookup demo_leader (relation_data demo_state 4) (ev_app demo_join) = Inr Map.empty"
  by (simp add: data_lookup_def data_items_def demo_leader_def demo_env_def demo_state_def demo_client_def demo_join_def)

lemma demo_leader_lookup_unit: "data_lookup demo_leader (relation_data demo_state 4) (ev_unit demo_join) = Inr [''database'' \<mapsto> ''cli'']"
  by (simp add: data_lookup_def data_items_def demo_leader_def demo_env_def demo_state_def demo_client_def demo_join_def)

theorem join_username_and_password_witness:
  "unit_data (relation_data (snd (db_on_relation_joined demo_leader False demo_join demo_state)) 4) ''user''
     = Some ''pgbouncer_user_4_test_db''
   \<and> generated (snd (db_on_relation_joined demo_leader False demo_join demo_state)) = 1
   \<and> unit_data (relation_data (snd (db_on_relation_joined demo_leader False demo_join demo_state)) 4) ''password''
     = Some ''T6NX0iz1ZRHZF5kfYDanKM5z''"
proof -
  have ev: "ev_relation demo_join = 4" by (simp add: demo_join_def)
  have l: "is_leader demo_leader" "is_active (check_status demo_leader)"
    "app_name demo_leader = ''pgbouncer''" "model_name demo_leader = ''test-db''"
    "random_password demo_leader 0 = ''T6NX0iz1ZRHZF5kfYDanKM5z''"
    by (simp_all add: demo_leader_def demo_env_def)
  have g: "generated demo_state = 0" by (simp add: demo_state_def)
  have rq: "requested_database Map.empty [''database'' \<mapsto> ''cli''] = Some ''cli''"
    by (simp add: requested_database_def truthy_def)
  from join_username_and_password [of demo_leader demo_state demo_join Map.empty
      "[''database'' \<mapsto> ''cli'']" "''cli''" False
      "fst (db_on_relation_joined demo_leader False demo_join demo_state)"
      "snd (db_on_relation_joined demo_leader False demo_join demo_state)"
      "replace_dash (app_name demo_leader @ ''_user_'' @ str_int (ev_relation demo_join) @ ''_'' @ model_name demo_leader)",
      OF l(2) _ _ rq]
    demo_leader_lookup_app demo_leader_lookup_unit
  show ?thesis
    by (simp add: ev l g str_int_4 replace_dash_def)
qed

section \<open>Relation-broken without a breaking flag\<close>

lemma get_external_app_remote:
  "get_external_app env r = map_option fst (first_other_app (app_name env) (remote_data r))"
  by (simp add: get_external_app_def data_items_def)

lemma update_connection_info_frame [simp]:
  "calls (snd (update_connection_info env rid port s)) = calls s"
  "peers_app_databag (snd (update_connection_info env rid port s)) = peers_app_databag s"
  "persisted_config (snd (update_connection_info env rid port s)) = persisted_config s"
  "generated (snd (update_connection_info env rid port s)) = generated s"
  "files (snd (update_connection_info env rid port s)) = files s"
  "backend_relation (snd (update_connection_info env rid port s)) = backend_relation s"
  "db_relations (snd (update_connection_info env rid port s)) = db_relations s"
  "db_admin_relations (snd (update_connection_info env rid port s)) = db_admin_relations s"
  "status (snd (update_connection_info env rid port s)) = status s"
  by (simp_all add: update_connection_info_def Let_def split: option.splits)

lemma update_connection_info_returns:
  "get_external_app env (relation_data s rid) \<noteq> None \<Longrightarrow>
   fst (update_connection_info env rid port s) = Returned"
  by (auto simp: update_connection_info_def Let_def split: option.splits)

lemma update_connection_info_idem:
  "update_connection_info env rid port (snd (update_connection_info env rid port s))
   = update_connection_info env rid port s"
  by (auto simp: update_connection_info_def Let_def update_databags_def bag_update_def
      get_external_app_remote split: option.splits)

text \<open>
  C7. On the leader, a relation-broken notification with no breaking flag in the peer
  databag does nothing but \<open>update_connection_info\<close> for the relation: the Config
  Document, the peer databag, the files and the backend relation are unchanged, no
  password is generated and no external call is made (no deletion, no defer). Handling
  the notification again from the resulting state gives the same state, so the
  republished values are identical. The handler returns whenever the relation has a
  remote application.
\<close>

theorem broken_without_flag_only_republishes:
  assumes "is_leader env"
    and "peers_app_databag s (break_flag admin (ev_relation ev)) = None"
    and "db_on_relation_broken env admin ev s = (out, s')"
  shows "(out, s') = update_connection_info env (ev_relation ev) None s
       \<and> persisted_config s' = persisted_config s
       \<and> peers_app_databag s' = peers_app_databag s
       \<and> calls s' = calls s
       \<and> files s' = files s
       \<and> backend_relation s' = backend_relation s
       \<and> generated s' = generated s
       \<and> db_on_relation_broken env admin ev s' = (out, s')
       \<and> (get_external_app env (relation_data s (ev_relation ev)) \<noteq> None \<longrightarrow> out = Returned)"
proof -
  have u: "update_connection_info env (ev_relation ev) None s = (out, s')"
    using assms by (simp add: db_on_relation_broken_def Let_def truthy_def)
  have s': "s' = snd (update_connection_info env (ev_relation ev) None s)"
    and out: "out = fst (update_connection_info env (ev_relation ev) None s)"
    using u by simp_all
  have p: "peers_app_databag s' = peers_app_databag s" by (simp add: s')
  have again: "db_on_relation_broken env admin ev s' = update_connection_info env (ev_relation ev) None s'"
    using assms(1,2) p by (simp add: db_on_relation_broken_def Let_def truthy_def)
  have idem: "update_connection_info env (ev_relation ev) None s' = (out, s')"
    unfolding s' update_connection_info_idem using u by simp
  show ?thesis
    using u p again idem update_connection_info_returns [of env s "ev_relation ev" None]
    by (simp add: s' out)
qed


lemma str_int_6432: "str_int 6432 = ''6432''"
  by (simp add: str_int_def str_nat.simps)

theorem broken_without_flag_only_republishes_witness:
  "is_leader demo_leader
   \<and> peers_app_databag demo_provisioned_state (break_flag False (ev_relation demo_broken)) = None
   \<and> fst (db_on_relation_broken demo_leader False demo_broken demo_provisioned_state) = Returned
   \<and> persisted_config (snd (db_on_relation_broken demo_leader False demo_broken demo_provisioned_state))
       = Some demo_config
   \<and> calls (snd (db_on_relation_broken demo_leader False demo_broken demo_provisioned_state)) = []
   \<and> unit_data (relation_data
         (snd (db_on_relation_broken demo_leader False demo_broken demo_provisioned_state)) 4) ''master''
       = Some ''host=localhost dbname=cli port=6432 user=pgbouncer_user_4_test_db password=T6NX0iz1ZRHZF5kfYDanKM5z fallback_application_name=psql''"
proof -
  have l: "is_leader demo_leader" by (simp add: demo_leader_def)
  have f: "peers_app_databag demo_provisioned_state (break_flag False (ev_relation demo_broken)) = None"
    by (simp add: demo_provisioned_state_def demo_state_def)
  have x: "get_external_app demo_leader (relation_data demo_provisioned_state (ev_relation demo_broken)) = Some ''psql''"
    by (simp add: get_external_app_remote demo_provisioned_state_def demo_provisioned_def
        demo_client_def demo_leader_def demo_env_def)
  have u: "unit_data (relation_data (snd (update_connection_info demo_leader 4 None demo_provisioned_state)) 4) ''master''
       = Some ''host=localhost dbname=cli port=6432 user=pgbouncer_user_4_test_db password=T6NX0iz1ZRHZF5kfYDanKM5z fallback_application_name=psql''"
    using x
    by (simp add: update_connection_info_def Let_def update_databags_unit_data bag_update_def
        parse_dict_to_kv_string_def demo_broken_def)
       (simp add: demo_provisioned_state_def demo_provisioned_def demo_state_def demo_leader_def
        demo_env_def str_int_6432 update_databags_unit_data bag_update_def
        parse_dict_to_kv_string_def)
  note all = broken_without_flag_only_republishes [OF l f surjective_pairing]
  have c: "persisted_config (snd (db_on_relation_broken demo_leader False demo_broken demo_provisioned_state))
             = persisted_config demo_provisioned_state"
    and k: "calls (snd (db_on_relation_broken demo_leader False demo_broken demo_provisioned_state))
             = calls demo_provisioned_state"
    using all by blast+
  have o: "fst (db_on_relation_broken demo_leader False demo_broken demo_provisioned_state) = Returned"
    using all x by blast
  have "(fst (db_on_relation_broken demo_leader False demo_broken demo_provisioned_state),
         snd (db_on_relation_broken demo_leader False demo_broken demo_provisioned_state))
        = update_connection_info demo_leader (ev_relation demo_broken) None demo_provisioned_state"
    using all by blast
  then have r: "db_on_relation_broken demo_leader False demo_broken demo_provisioned_state
             = update_connection_info demo_leader (ev_relation demo_broken) None demo_provisioned_state"
    by simp
  have ev: "ev_relation demo_broken = 4" by (simp add: demo_broken_def)
  show ?thesis
    using l f o c k u r
    by (simp add: ev demo_provisioned_state_def demo_state_def)
qed

section \<open>Republishing the endpoint topology\<close>

lemma postgres_databag_cong:
  "backend_relation s' = backend_relation s \<Longrightarrow> postgres_databag env s' = postgres_databag env s"
  by (simp add: postgres_databag_def)

lemma auth_user_cong:
  "backend_relation s' = backend_relation s \<Longrightarrow> auth_user env s' = auth_user env s"
  by (simp add: auth_user_def postgres_databag_def)

lemma postgres_cong:
  "backend_relation s' = backend_relation s \<Longrightarrow> postgres env s' = postgres env s"
  by (simp add: postgres_def postgres_databag_def split: option.splits)

text \<open>
  The lines after the call to \<open>get_read_only_endpoints\<close>, taken alone, do what the
  specification says of the standby alias for whatever list they would be given, and
  writing the same routes twice is writing them once.
\<close>

lemma standby_routes_form:
  assumes "standby_routes database au ros dbs = Inr dbs'"
  obtains v where "dbs' = dbs(standby database := v)"
    and "\<And>m. standby_routes database au ros m = Inr (m(standby database := v))"
proof (cases ros)
  case Nil
  from assms Nil have "dbs' = dbs(standby database := None)"
    by (simp add: standby_routes_def)
  moreover have "standby_routes database au ros m = Inr (m(standby database := None))" for m
    using Nil by (simp add: standby_routes_def)
  ultimately show ?thesis using that by blast
next
  case (Cons ro ros')
  show ?thesis
  proof (cases "split1 ro")
    case (Inl e)
    with assms Cons show ?thesis by (simp add: standby_routes_def)
  next
    case (Inr sp)
    let ?v = "Some \<lparr>r_host = py_join '','' (map split0 ros),
                     r_dbname = database, r_port = sp, r_auth_user = au\<rparr>"
    from assms Cons Inr have "dbs' = dbs(standby database := ?v)"
      by (simp add: standby_routes_def)
    moreover have "standby_routes database au ros m = Inr (m(standby database := ?v))" for m
      using Cons Inr by (simp add: standby_routes_def)
    ultimately show ?thesis using that by blast
  qed
qed

lemma set_routes_standby:
  assumes "set_routes env admin database ep port au ros dbs = Inr dbs'"
    and "admin \<longrightarrow> const_PG env \<noteq> standby database"
  shows "dbs' (standby database) =
           (case ros of
              [] \<Rightarrow> None
            | ro # _ \<Rightarrow>
                (case split1 ro of
                   Inl e \<Rightarrow> None
                 | Inr standby_port \<Rightarrow>
                     Some \<lparr>r_host = py_join '','' (map split0 ros),
                           r_dbname = database, r_port = standby_port, r_auth_user = au\<rparr>))"
  using assms
  by (auto simp: set_routes_def standby_routes_def split: sum.splits list.splits)

lemma set_routes_idem:
  assumes "set_routes env admin database ep port au ros dbs = Inr dbs'"
  shows "set_routes env admin database ep port au ros dbs' = Inr dbs'"
proof -
  let ?r = "\<lparr>r_host = split0 ep, r_dbname = const_PG env, r_port = port, r_auth_user = au\<rparr>"
  from assms obtain dbs2 where s2: "standby_routes database au ros dbs = Inr dbs2"
    by (auto simp: set_routes_def split: sum.splits)
  from standby_routes_form [OF s2] obtain v
    where d2: "dbs2 = dbs(standby database := v)"
      and all: "\<And>m. standby_routes database au ros m = Inr (m(standby database := v))"
    by blast
  show ?thesis
  proof (cases admin)
    case True
    with assms s2 d2 have d: "dbs' = dbs(standby database := v, const_PG env \<mapsto> ?r)"
      by (simp add: set_routes_def)
    have "dbs'(standby database := v, const_PG env \<mapsto> ?r) = dbs'"
      unfolding d by (rule ext) simp
    then show ?thesis using True all by (simp add: set_routes_def)
  next
    case False
    with assms s2 d2 have d: "dbs' = dbs(standby database := v)"
      by (simp add: set_routes_def)
    have "dbs'(standby database := v) = dbs'"
      unfolding d by (rule ext) simp
    then show ?thesis using False all by (simp add: set_routes_def)
  qed
qed

text \<open>
  The operation itself never gets that far: it changes nothing in the state, and it
  returns only when the relation's databag names no database.
\<close>

lemma update_postgres_endpoints_state [simp]:
  "snd (update_postgres_endpoints env admin rid rl s) = s"
  by (simp add: update_postgres_endpoints_def get_read_only_endpoints_def Let_def
      split: option.splits sum.splits)

lemma update_postgres_endpoints_outcome:
  "fst (update_postgres_endpoints env admin rid rl s) = Returned
   \<longleftrightarrow> unit_data (relation_data s rid) ''database'' = None"
  by (simp add: update_postgres_endpoints_def get_read_only_endpoints_def Let_def
      split: option.splits sum.splits)

lemma update_postgres_endpoints_calls:
  "filter mutates_backend (calls (snd (update_postgres_endpoints env admin rid rl s)))
   = filter mutates_backend (calls s)"
  by simp

text \<open>
  In the example everything the operation reads before the call is in place: the backend
  databag with a well-formed primary endpoint, the auth user and the Config Document.
\<close>

lemma split1_demo: "split1 ''10.0.0.2:5432'' = Inr ''5432''"
  by (simp add: split1_def)

lemma demo_republish_reaches_call:
  assumes "backend_relation s = Some demo_backend"
    and "persisted_config s = Some cfg"
    and "unit_data (relation_data s rid) ''database'' = Some database"
  shows "update_postgres_endpoints demo_leader admin rid rl s =
           (case get_read_only_endpoints demo_leader s of
              Inl e \<Rightarrow> (Raised e, s)
            | Inr read_only_endpoints \<Rightarrow>
                (case set_routes demo_leader admin database ''10.0.0.2:5432'' ''5432''
                        (Some ''pgbouncer_auth_relation_3'') read_only_endpoints
                        ((databases cfg)(database \<mapsto>
                           \<lparr>r_host = split0 ''10.0.0.2:5432'', r_dbname = database,
                            r_port = ''5432'',
                            r_auth_user = Some ''pgbouncer_auth_relation_3''\<rparr>)) of
                   Inl e \<Rightarrow> (Raised e, s)
                 | Inr dbs \<Rightarrow> (Returned, render_pgb_config (cfg\<lparr>databases := dbs\<rparr>) rl s)))"
  using assms
  by (simp add: update_postgres_endpoints_def demo_postgres_databag [OF assms(1)]
      read_pgb_config_def split1_demo auth_user_def replace_dash_def Let_def)

lemma demo_stale_state_fields:
  "backend_relation demo_stale_state = Some demo_backend"
  "persisted_config demo_stale_state = Some demo_routes"
  "unit_data (relation_data demo_stale_state 4) ''database'' = Some ''cli''"
  by (simp_all add: demo_stale_state_def demo_provisioned_state_def demo_provisioned_def
      demo_state_def)

lemma demo_provisioned_state_fields:
  "backend_relation demo_provisioned_state = Some demo_backend"
  "persisted_config demo_provisioned_state = Some demo_config"
  "unit_data (relation_data demo_provisioned_state 4) ''database'' = Some ''cli''"
  by (simp_all add: demo_provisioned_state_def demo_provisioned_def demo_state_def)

text \<open>
  C3. With a backend that reports a primary endpoint and no read-only endpoint, and a
  Config Document that still holds the alias \<open>cli_standby\<close>, \<open>update_postgres_endpoints\<close>
  for the relation of database \<open>cli\<close> raises AttributeError at the call of
  \<open>get_read_only_endpoints\<close>, and the alias is still in the Config Document afterwards.
  The claim says the alias is removed.
\<close>

theorem republish_leaves_stale_standby_alias:
  "fst (update_postgres_endpoints demo_leader False 4 True demo_stale_state) = Raised AttributeError
   \<and> map_option (\<lambda>cfg. databases cfg ''cli_standby'')
        (persisted_config (snd (update_postgres_endpoints demo_leader False 4 True demo_stale_state)))
     = Some (Some (demo_route\<lparr>r_host := ''10.0.0.3''\<rparr>))"
  using demo_republish_reaches_call [OF demo_stale_state_fields, of False True]
  by (simp add: get_read_only_endpoints_def demo_stale_state_fields demo_routes_def)

text \<open>
  C8. With the backend publishing its primary endpoint and a Config Document without any
  route, \<open>update_postgres_endpoints\<close> for the relation of database \<open>cli\<close> raises
  AttributeError at the call of \<open>get_read_only_endpoints\<close>, and after a second run on the
  state the first one left the Config Document still has no route for \<open>cli\<close>: the two
  runs agree because neither writes. The claim says the operation recomputes the routes
  from the backend state.
\<close>

theorem republish_twice_recomputes_no_route:
  "fst (update_postgres_endpoints demo_leader False 4 True demo_provisioned_state)
     = Raised AttributeError
   \<and> fst (update_postgres_endpoints demo_leader False 4 True
          (snd (update_postgres_endpoints demo_leader False 4 True demo_provisioned_state)))
     = Raised AttributeError
   \<and> map_option (\<lambda>cfg. databases cfg ''cli'')
        (persisted_config (snd (update_postgres_endpoints demo_leader False 4 True
          (snd (update_postgres_endpoints demo_leader False 4 True demo_provisioned_state)))))
     = Some None"
  using demo_republish_reaches_call [OF demo_provisioned_state_fields, of False True]
  by (simp add: get_read_only_endpoints_def demo_provisioned_state_fields demo_config_def)

section \<open>Leader-only mutation of the backend\<close>

lemma update_connection_info_pair:
  "update_connection_info env rid port s = (out, s') \<Longrightarrow> calls s' = calls s"
  using update_connection_info_frame(1) [of env rid port s] by simp

lemma update_postgres_endpoints_pair:
  "update_postgres_endpoints env admin rid rl s = (out, s') \<Longrightarrow>
   filter mutates_backend (calls s') = filter mutates_backend (calls s)"
  using update_postgres_endpoints_calls [of env admin rid rl s] by simp

lemma postgres_call_calls:
  "\<not> mutates_backend c \<Longrightarrow>
   filter mutates_backend (calls (snd (postgres_call env c e s))) = filter mutates_backend (calls s)"
  by (simp add: postgres_call_def external_def split: sum.splits option.splits)

lemma postgres_call_pair:
  "postgres_call env c e s = (out, s') \<Longrightarrow> \<not> mutates_backend c \<Longrightarrow>
   filter mutates_backend (calls s') = filter mutates_backend (calls s)"
  using postgres_call_calls [of c env e s] by simp

lemma joined_non_leader:
  "\<not> is_leader env \<Longrightarrow>
   filter mutates_backend (calls (snd (db_on_relation_joined env admin ev s)))
   = filter mutates_backend (calls s)"
  by (simp add: db_on_relation_joined_def Let_def split: sum.splits option.splits)

lemma changed_any:
  "filter mutates_backend (calls (snd (db_on_relation_changed env admin ev s)))
   = filter mutates_backend (calls s)"
proof -
  let ?s0 = "s\<lparr>status := check_status env\<rparr>"
  let ?rid = "ev_relation ev"
  obtain o1 s1 where 1: "update_connection_info env ?rid (Some (listen_port env)) ?s0 = (o1, s1)"
    by (cases "update_connection_info env ?rid (Some (listen_port env)) ?s0")
  obtain o2 s2 where 2: "update_postgres_endpoints env admin ?rid True s1 = (o2, s2)"
    by (cases "update_postgres_endpoints env admin ?rid True s1")
  obtain o3 s3 where 3: "postgres_call env GetPostgresqlVersion PostgreSQLGetPostgreSQLVersionError s2 = (o3, s3)"
    by (cases "postgres_call env GetPostgresqlVersion PostgreSQLGetPostgreSQLVersionError s2")
  have c1: "calls s1 = calls s" using update_connection_info_pair [OF 1] by simp
  have c2: "filter mutates_backend (calls s2) = filter mutates_backend (calls s)"
    using update_postgres_endpoints_pair [OF 2] c1 by simp
  have c3: "filter mutates_backend (calls s3) = filter mutates_backend (calls s)"
    using postgres_call_pair [OF 3] c2 by simp
  show ?thesis
    using 1 2 3 c1 c2 c3
    by (simp add: db_on_relation_changed_def Let_def split: option.splits outcome.splits)
qed

lemma departed_any:
  "filter mutates_backend (calls (snd (db_on_relation_departed env admin ev s)))
   = filter mutates_backend (calls s)"
  by (simp add: db_on_relation_departed_def Let_def)

lemma charm_update_client_connection_info_calls:
  "calls (snd (charm_update_client_connection_info env s)) = calls s"
  unfolding charm_update_client_connection_info_def
  by (rule for_each_preserves) simp

lemma broken_non_leader:
  "\<not> is_leader env \<Longrightarrow>
   filter mutates_backend (calls (snd (db_on_relation_broken env admin ev s)))
   = filter mutates_backend (calls s)"
  by (simp add: db_on_relation_broken_def Let_def charm_update_client_connection_info_calls)

lemma created_non_leader:
  "\<not> is_leader env \<Longrightarrow>
   filter mutates_backend (calls (snd (on_database_created env username s)))
   = filter mutates_backend (calls s)"
  by (simp add: on_database_created_def Let_def)

lemma charm_update_postgres_endpoints_calls:
  "filter mutates_backend (calls (snd (charm_update_postgres_endpoints env rl s)))
   = filter mutates_backend (calls s)"
proof -
  let ?f = "\<lambda>s. filter mutates_backend (calls s)"
  obtain o1 s1 where 1: "for_each (\<lambda>rid. update_postgres_endpoints env False rid False) (db_relations s) s = (o1, s1)"
    by (cases "for_each (\<lambda>rid. update_postgres_endpoints env False rid False) (db_relations s) s")
  obtain o2 s2 where 2: "for_each (\<lambda>rid. update_postgres_endpoints env True rid False) (db_admin_relations s1) s1 = (o2, s2)"
    by (cases "for_each (\<lambda>rid. update_postgres_endpoints env True rid False) (db_admin_relations s1) s1")
  have "?f (snd (for_each (\<lambda>rid. update_postgres_endpoints env False rid False) (db_relations s) s)) = ?f s"
    by (rule for_each_preserves) (rule update_postgres_endpoints_calls)
  with 1 have c1: "?f s1 = ?f s" by simp
  have "?f (snd (for_each (\<lambda>rid. update_postgres_endpoints env True rid False) (db_admin_relations s1) s1)) = ?f s1"
    by (rule for_each_preserves) (rule update_postgres_endpoints_calls)
  with 2 c1 have c2: "?f s2 = ?f s" by simp
  show ?thesis
    using 1 2 c1 c2
    by (simp add: charm_update_postgres_endpoints_def split: outcome.splits)
qed

lemma backend_departed_non_leader:
  "\<not> is_leader env \<Longrightarrow>
   filter mutates_backend (calls (snd (backend_on_relation_departed env du s)))
   = filter mutates_backend (calls s)"
  by (simp add: backend_on_relation_departed_def)

lemma backend_broken_any:
  "filter mutates_backend (calls (snd (backend_on_relation_broken env s)))
   = filter mutates_backend (calls s)"
  by (simp add: backend_on_relation_broken_def Let_def read_pgb_config_def delete_file_def
      split: option.splits sum.splits)

lemma handle_non_leader:
  "\<not> is_leader env \<Longrightarrow>
   filter mutates_backend (calls (snd (handle env n s))) = filter mutates_backend (calls s)"
  by (cases n)
     (simp_all add: joined_non_leader changed_any departed_any broken_non_leader
        created_non_leader on_endpoints_changed_def charm_update_postgres_endpoints_calls
        backend_departed_non_leader backend_broken_any)

text \<open>
  C2. In every sequence of notifications delivered while the process is not the leader,
  whatever the state it starts from, no handler makes a call that creates or deletes a
  role or a database (\<open>create_user\<close>, \<open>create_database\<close>, \<open>delete_user\<close>) or runs the
  install or uninstall script of the auth function: the log of such calls is the same
  after the sequence as before it.
\<close>

theorem non_leader_never_mutates_backend:
  assumes "\<forall>(env, n) \<in> set ns. \<not> is_leader env"
  shows "filter mutates_backend (calls (run ns s)) = filter mutates_backend (calls s)"
  using assms
proof (induction ns arbitrary: s)
  case Nil
  show ?case by simp
next
  case (Cons p ns)
  obtain env n where p: "p = (env, n)" by (cases p)
  from Cons.prems p have nl: "\<not> is_leader env" and rest: "\<forall>(env, n) \<in> set ns. \<not> is_leader env"
    by auto
  have "filter mutates_backend (calls (run (p # ns) s))
        = filter mutates_backend (calls (snd (handle env n s)))"
    using Cons.IH [OF rest] p by simp
  also have "\<dots> = filter mutates_backend (calls s)"
    by (rule handle_non_leader [OF nl])
  finally show ?case .
qed


theorem non_leader_never_mutates_backend_witness:
  "filter mutates_backend (calls (run demo_notifications demo_state)) = []"
proof -
  have "\<forall>(env, n) \<in> set demo_notifications. \<not> is_leader env"
    by (simp add: demo_notifications_def demo_env_def)
  from non_leader_never_mutates_backend [OF this, of demo_state]
  show ?thesis by (simp add: demo_state_def)
qed

text \<open>On the leader the same join notification does reach the backend.\<close>

lemma leader_join_mutates_backend:
  "filter mutates_backend (calls (snd (db_on_relation_joined demo_leader False demo_join demo_state)))
   = [CreateUser ''pgbouncer_user_4_test_db'' ''T6NX0iz1ZRHZF5kfYDanKM5z'' False,
      CreateDatabase ''cli'' ''pgbouncer_user_4_test_db'',
      Execute ''cli'' (Install ''pgbouncer_auth_relation_3'')]"
proof -
  have u: "generate_username demo_leader 4 = ''pgbouncer_user_4_test_db''"
    by (simp add: generate_username_def demo_leader_def demo_env_def replace_dash_def str_int_4)
  have l: "is_leader demo_leader" "check_status demo_leader = ActiveStatus []"
    "random_password demo_leader 0 = ''T6NX0iz1ZRHZF5kfYDanKM5z''" "\<And>c. \<not> fails demo_leader c"
    by (simp_all add: demo_leader_def demo_env_def)
  have ev: "ev_relation demo_join = 4" by (simp add: demo_join_def)
  have b: "\<And>s. backend_relation s = Some demo_backend \<Longrightarrow>
      auth_user demo_leader s = Inr (Some ''pgbouncer_auth_relation_3'')"
    by (simp add: auth_user_def demo_postgres_databag replace_dash_def)
  show ?thesis
    using demo_leader_lookup_app demo_leader_lookup_unit
    by (simp add: db_on_relation_joined_def Let_def ev u l requested_database_def truthy_def
        generate_password_def join_provision_def postgres_call_def external_def
        initialise_auth_function_def run_script_def demo_postgres b peers_add_user_def
        read_pgb_config_def demo_state_def log_call_def update_databags_def
        render_pgb_config_def)
qed

section \<open>Retention of a shared database on relation-broken\<close>

lemma delete_db_iff:
  "delete_db store broken_id database relations \<longleftrightarrow>
   \<not> (\<exists>rid \<in> set relations. rid \<noteq> broken_id
        \<and> unit_data (store rid) ''database'' = Some database)"
  by (induction relations) auto

lemma delete_db_order:
  "set relations = set relations' \<Longrightarrow>
   delete_db store broken_id database relations = delete_db store broken_id database relations'"
  by (simp add: delete_db_iff)

lemma postgres_auth_user:
  "postgres env s = Inr (Some pg) \<Longrightarrow>
   auth_user env s = Inr (Some (replace_dash (''pgbouncer_auth_'' @ pg_user pg)))"
  by (auto simp: postgres_def auth_user_def split: option.splits)

lemma postgres_simps [simp]:
  "postgres env (log_call c s) = postgres env s"
  "postgres env (render_pgb_config cfg rl s) = postgres env s"
  "postgres env (peers_remove_user user s) = postgres env s"
  "postgres env (s\<lparr>peers_app_databag := p\<rparr>) = postgres env s"
  by (rule postgres_cong, simp add: peers_remove_user_def)+

lemma auth_user_simps [simp]:
  "auth_user env (log_call c s) = auth_user env s"
  "auth_user env (render_pgb_config cfg rl s) = auth_user env s"
  "auth_user env (peers_remove_user user s) = auth_user env s"
  "auth_user env (s\<lparr>peers_app_databag := p\<rparr>) = auth_user env s"
  by (rule auth_user_cong, simp add: peers_remove_user_def)+

lemma remove_auth_function_single:
  assumes "postgres env s = Inr (Some pg)"
    and "\<not> fails env (Execute database (Uninstall (replace_dash (''pgbouncer_auth_'' @ pg_user pg))))"
  shows "remove_auth_function env [database] s =
           (Returned, log_call (Execute database
              (Uninstall (replace_dash (''pgbouncer_auth_'' @ pg_user pg)))) s)"
  using assms postgres_auth_user [OF assms(1)]
  by (simp add: remove_auth_function_def run_script_def external_def)

lemma delete_user_caught:
  assumes "postgres env s = Inr (Some pg)"
  shows "(case postgres_call env (DeleteUser user) PostgreSQLDeleteUserError s of
            (Raised e, s4) \<Rightarrow>
              if e = PostgreSQLDeleteUserError then (Returned, s4) else (Raised e, s4)
          | (Returned, s4) \<Rightarrow> (Returned, s4))
         = (Returned, log_call (DeleteUser user) s)"
  using assms by (simp add: postgres_call_def external_def)

lemma broken_teardown_result:
  assumes "postgres env s = Inr (Some pg)"
    and "persisted_config s = Some cfg"
    and "\<not> fails env (Execute database (Uninstall (replace_dash (''pgbouncer_auth_'' @ pg_user pg))))"
  shows "\<exists>s'. broken_teardown env rid user database s = (Returned, s')
           \<and> persisted_config s' =
               Some (cfg\<lparr>databases :=
                        (if delete_db (relation_data s) rid database
                              (db_relations s @ db_admin_relations s)
                         then (databases cfg)(database := None, standby database := None)
                         else databases cfg),
                      users := (users cfg)(user := None)\<rparr>)
           \<and> peers_app_databag s' = (peers_app_databag s)(user := None)"
proof (cases "delete_db (relation_data s) rid database (db_relations s @ db_admin_relations s)")
  case True
  let ?s1 = "log_call (Execute database
              (Uninstall (replace_dash (''pgbouncer_auth_'' @ pg_user pg)))) s"
  let ?cfg1 = "cfg\<lparr>databases := (databases cfg)(database := None, standby database := None)\<rparr>"
  let ?s3 = "peers_remove_user user (render_pgb_config (remove_user user ?cfg1) True ?s1)"
  have p3: "postgres env ?s3 = Inr (Some pg)" using assms(1) by simp
  have "broken_teardown env rid user database s = (Returned, log_call (DeleteUser user) ?s3)"
    using True assms(2) remove_auth_function_single [OF assms(1,3)] delete_user_caught [OF p3, of user]
    by (simp add: broken_teardown_def read_pgb_config_def Let_def)
  then show ?thesis
    using True by (simp add: remove_user_def peers_remove_user_def)
next
  case False
  let ?s3 = "peers_remove_user user (render_pgb_config (remove_user user cfg) True s)"
  have p3: "postgres env ?s3 = Inr (Some pg)" using assms(1) by simp
  have "broken_teardown env rid user database s = (Returned, log_call (DeleteUser user) ?s3)"
    using False assms(2) delete_user_caught [OF p3, of user]
    by (simp add: broken_teardown_def read_pgb_config_def Let_def)
  then show ?thesis
    using False by (simp add: remove_user_def peers_remove_user_def)
qed

text \<open>
  C1. On the leader, with the breaking flag of the relation set, the backend available
  (its connection data published and the auth-function script runnable), user and
  database in the relation's databag and the Config Document in place, the
  relation-broken handler returns, and the Config Document it persists has lost the
  route of the database and its standby alias exactly when no other relation of either
  flavor (\<open>db\<close> or \<open>db-admin\<close>) names that database in this unit's databag; when some
  other relation does, the route table is the one from before. The condition is on the
  set of relations, so the order in which they are scanned plays no part. The user's
  entry is removed in both cases.
\<close>

theorem broken_removes_route_iff_last:
  assumes "is_leader env"
    and "truthy (peers_app_databag s (break_flag admin (ev_relation ev)))"
    and "postgres env s = Inr (Some pg)"
    and "\<not> fails env (Execute database (Uninstall (replace_dash (''pgbouncer_auth_'' @ pg_user pg))))"
    and "unit_data (relation_data s (ev_relation ev)) ''user'' = Some user"
    and "unit_data (relation_data s (ev_relation ev)) ''database'' = Some database"
    and "persisted_config s = Some cfg"
  shows "\<exists>s'. db_on_relation_broken env admin ev s = (Returned, s')
           \<and> persisted_config s' =
               Some (cfg\<lparr>databases :=
                        (if \<exists>rid \<in> set (db_relations s) \<union> set (db_admin_relations s).
                              rid \<noteq> ev_relation ev
                              \<and> unit_data (relation_data s rid) ''database'' = Some database
                         then databases cfg
                         else (databases cfg)(database := None, standby database := None)),
                      users := (users cfg)(user := None)\<rparr>)"
proof -
  let ?s1 = "s\<lparr>peers_app_databag := (peers_app_databag s)(break_flag admin (ev_relation ev) := None)\<rparr>"
  have p1: "postgres env ?s1 = Inr (Some pg)" using assms(3) by simp
  have c1: "persisted_config ?s1 = Some cfg" using assms(7) by simp
  have h: "db_on_relation_broken env admin ev s = broken_teardown env (ev_relation ev) user database ?s1"
    using assms(1,2,5,6) p1 by (simp add: db_on_relation_broken_def Let_def)
  from broken_teardown_result [OF p1 c1 assms(4), of "ev_relation ev" user]
  show ?thesis
    unfolding h by (auto simp: delete_db_iff)
qed


lemma demo_break_flag: "break_flag False (ev_relation demo_broken) = ''db-4-relation-breaking''"
  by (simp add: break_flag_def relation_name_def demo_broken_def str_int_4)

theorem broken_removes_route_iff_last_witness:
  "fst (db_on_relation_broken demo_leader False demo_broken demo_breaking_state) = Returned
   \<and> map_option (\<lambda>cfg. (databases cfg ''cli'', databases cfg ''cli_standby''))
        (persisted_config (snd (db_on_relation_broken demo_leader False demo_broken
           demo_breaking_state)))
     = Some (None, None)
   \<and> fst (db_on_relation_broken demo_leader False demo_broken demo_shared_state) = Returned
   \<and> map_option (\<lambda>cfg. (databases cfg ''cli'', databases cfg ''cli_standby''))
        (persisted_config (snd (db_on_relation_broken demo_leader False demo_broken
           demo_shared_state)))
     = Some (Some demo_route, Some (demo_route\<lparr>r_host := ''10.0.0.3''\<rparr>))"
proof -
  let ?pg = "\<lparr>pg_host = ''10.0.0.2'', pg_user = ''relation-3'',
              pg_password = ''yPEgUWCYX0SBxpvC'', pg_database = ''pgbouncer''\<rparr>"
  have l: "is_leader demo_leader" by (simp add: demo_leader_def)
  have nf: "\<not> fails demo_leader (Execute ''cli''
              (Uninstall (replace_dash (''pgbouncer_auth_'' @ pg_user ?pg))))"
    by (simp add: demo_leader_def demo_env_def)
  have ev: "ev_relation demo_broken = 4" by (simp add: demo_broken_def)
  have a: "truthy (peers_app_databag demo_breaking_state (break_flag False (ev_relation demo_broken)))"
    "postgres demo_leader demo_breaking_state = Inr (Some ?pg)"
    "unit_data (relation_data demo_breaking_state (ev_relation demo_broken)) ''user''
       = Some ''pgbouncer_user_4_test_db''"
    "unit_data (relation_data demo_breaking_state (ev_relation demo_broken)) ''database'' = Some ''cli''"
    "persisted_config demo_breaking_state = Some demo_routes"
    by (simp_all add: demo_break_flag truthy_def demo_postgres demo_breaking_state_def
        demo_provisioned_state_def demo_provisioned_def demo_state_def)
  have b: "truthy (peers_app_databag demo_shared_state (break_flag False (ev_relation demo_broken)))"
    "postgres demo_leader demo_shared_state = Inr (Some ?pg)"
    "unit_data (relation_data demo_shared_state (ev_relation demo_broken)) ''user''
       = Some ''pgbouncer_user_4_test_db''"
    "unit_data (relation_data demo_shared_state (ev_relation demo_broken)) ''database'' = Some ''cli''"
    "persisted_config demo_shared_state = Some demo_routes"
    by (simp_all add: demo_break_flag truthy_def demo_postgres demo_shared_state_def
        demo_breaking_state_def demo_provisioned_state_def demo_provisioned_def demo_state_def)
  have ra: "db_relations demo_breaking_state = [4]" "db_admin_relations demo_breaking_state = []"
    by (simp_all add: demo_breaking_state_def demo_provisioned_state_def demo_state_def)
  have rb: "db_relations demo_shared_state = [4]" "db_admin_relations demo_shared_state = [7]"
    "unit_data (relation_data demo_shared_state 7) ''database'' = Some ''cli''"
    by (simp_all add: demo_shared_state_def demo_breaking_state_def demo_provisioned_state_def
        demo_provisioned_def demo_state_def)
  have d: "databases demo_routes ''cli'' = Some demo_route"
    "databases demo_routes ''cli_standby'' = Some (demo_route\<lparr>r_host := ''10.0.0.3''\<rparr>)"
    by (simp_all add: demo_routes_def)
  from broken_removes_route_iff_last [OF l a(1,2) nf a(3,4,5)]
  have 1: "fst (db_on_relation_broken demo_leader False demo_broken demo_breaking_state) = Returned
     \<and> map_option (\<lambda>cfg. (databases cfg ''cli'', databases cfg ''cli_standby''))
        (persisted_config (snd (db_on_relation_broken demo_leader False demo_broken
           demo_breaking_state))) = Some (None, None)"
    by (auto simp: ra ev standby_def)
  from broken_removes_route_iff_last [OF l b(1,2) nf b(3,4,5)]
  have 2: "fst (db_on_relation_broken demo_leader False demo_broken demo_shared_state) = Returned
     \<and> map_option (\<lambda>cfg. (databases cfg ''cli'', databases cfg ''cli_standby''))
        (persisted_config (snd (db_on_relation_broken demo_leader False demo_broken
           demo_shared_state)))
       = Some (Some demo_route, Some (demo_route\<lparr>r_host := ''10.0.0.3''\<rparr>))"
    by (auto simp: rb ev d)
  from 1 2 show ?thesis by blast
qed

end
